theory Spec2Isabelle
  imports Complex_Main "HOL-Library.Sublist"
begin

section \<open>Python strings\<close>

text \<open>
  A Python \<open>str\<close> is modelled as a \<open>string\<close> (a list of 8-bit characters). The model
  covers ASCII text: the letters are \<open>A-Z\<close> and \<open>a-z\<close>, and a character above 127 is
  an uncased symbol that is neither a letter, a digit nor white space.
\<close>

definition upper_letters :: string where
  "upper_letters = ''ABCDEFGHIJKLMNOPQRSTUVWXYZ''"

definition lower_letters :: string where
  "lower_letters = ''abcdefghijklmnopqrstuvwxyz''"

definition digit_chars :: string where
  "digit_chars = ''0123456789''"

definition is_upper :: "char \<Rightarrow> bool" where
  "is_upper c = (c \<in> set upper_letters)"

definition is_lower :: "char \<Rightarrow> bool" where
  "is_lower c = (c \<in> set lower_letters)"

definition is_alpha :: "char \<Rightarrow> bool" where
  "is_alpha c = (is_upper c \<or> is_lower c)"

definition is_digit :: "char \<Rightarrow> bool" where
  "is_digit c = (c \<in> set digit_chars)"

text \<open>The class \<open>\w\<close> of the \<open>re\<close> module: letters, digits and the underscore.\<close>

definition is_word :: "char \<Rightarrow> bool" where
  "is_word c = (is_alpha c \<or> is_digit c \<or> c = CHR ''_'')"

text \<open>
  \<open>str.isspace\<close> and the class \<open>\s\<close>: tab, line feed, vertical tab, form feed,
  carriage return, the four separators 0x1C-0x1F and the space.
\<close>

definition is_space :: "char \<Rightarrow> bool" where
  "is_space c = (c \<in> set [CHR 0x09, CHR 0x0A, CHR 0x0B, CHR 0x0C, CHR 0x0D,
                            CHR 0x1C, CHR 0x1D, CHR 0x1E, CHR 0x1F, CHR 0x20])"

definition lower_char :: "char \<Rightarrow> char" where
  "lower_char c = (case map_of (zip upper_letters lower_letters) c of
                     Some d \<Rightarrow> d | None \<Rightarrow> c)"

definition upper_char :: "char \<Rightarrow> char" where
  "upper_char c = (case map_of (zip lower_letters upper_letters) c of
                     Some d \<Rightarrow> d | None \<Rightarrow> c)"

text \<open>\<open>s.lower()\<close>\<close>

definition py_lower :: "string \<Rightarrow> string" where
  "py_lower s = map lower_char s"

text \<open>
  \<open>s.title()\<close>: a letter that follows a letter is lower-cased, any other letter is
  upper-cased, and every other character is kept.
\<close>

fun title_from :: "bool \<Rightarrow> string \<Rightarrow> string" where
  "title_from prev_cased [] = []"
| "title_from prev_cased (c # cs) =
     (if is_alpha c
      then (if prev_cased then lower_char c else upper_char c) # title_from True cs
      else c # title_from False cs)"

definition py_title :: "string \<Rightarrow> string" where
  "py_title s = title_from False s"

text \<open>\<open>s.startswith(p)\<close>\<close>

fun py_startswith :: "string \<Rightarrow> string \<Rightarrow> bool" where
  "py_startswith s [] = True"
| "py_startswith [] (p # ps) = False"
| "py_startswith (c # cs) (p # ps) = (c = p \<and> py_startswith cs ps)"

text \<open>\<open>sub in s\<close> for two strings: \<open>sub\<close> occurs in \<open>s\<close> as a contiguous substring.\<close>

fun py_contains :: "string \<Rightarrow> string \<Rightarrow> bool" where
  "py_contains sub [] = (sub = [])"
| "py_contains sub (c # cs) = (py_startswith (c # cs) sub \<or> py_contains sub cs)"

text \<open>
  \<open>s.split()\<close>: the maximal runs of characters that are not white space, in order.
  \<open>split_from cur s\<close> carries the run being read, reversed.
\<close>

fun split_from :: "string \<Rightarrow> string \<Rightarrow> string list" where
  "split_from cur [] = (if cur = [] then [] else [rev cur])"
| "split_from cur (c # cs) =
     (if is_space c
      then (if cur = [] then split_from [] cs else rev cur # split_from [] cs)
      else split_from (c # cur) cs)"

definition py_split :: "string \<Rightarrow> string list" where
  "py_split s = split_from [] s"

text \<open>\<open>int(s)\<close> on a string of decimal digits.\<close>

definition digit_val :: "char \<Rightarrow> int" where
  "digit_val c = (case map_of (zip digit_chars [0, 1, 2, 3, 4, 5, 6, 7, 8, 9]) c of
                    Some v \<Rightarrow> v | None \<Rightarrow> 0)"

definition py_int :: "string \<Rightarrow> int" where
  "py_int s = foldl (\<lambda>a c. 10 * a + digit_val c) 0 s"

datatype py_error = OperationalError | TypeError | IndexError

section \<open>Regular expressions\<close>

text \<open>
  The patterns of the program use literals, \<open>.\<close>, \<open>\s\<close>, \<open>\w\<close>, \<open>\d\<close>, \<open>\b\<close>,
  grouping, alternation, \<open>*\<close>, \<open>+\<close> and \<open>{n}\<close>. None has a back-reference or a
  look-around, so whether \<open>re.search\<close> finds a match is a question of the pattern's
  language, and the groups play no part.

  A position in the subject is the character before it (if any) and the rest of the
  subject from it. \<open>ends r st\<close> lists the positions at which a match of \<open>r\<close> that
  starts at \<open>st\<close> can end.
\<close>

datatype regex =
    Lit char
  | Dot
  | Space
  | Wordc
  | Digit
  | WordB
  | Eps
  | Seq regex regex
  | Alt regex regex
  | Star regex

type_synonym pos = "char option \<times> string"

definition word_before :: "pos \<Rightarrow> bool" where
  "word_before st = (case fst st of None \<Rightarrow> False | Some c \<Rightarrow> is_word c)"

definition word_after :: "pos \<Rightarrow> bool" where
  "word_after st = (case snd st of [] \<Rightarrow> False | c # cs \<Rightarrow> is_word c)"

text \<open>\<open>\b\<close>: exactly one side of the position is a word character.\<close>

definition at_boundary :: "pos \<Rightarrow> bool" where
  "at_boundary st = (word_before st \<noteq> word_after st)"

definition eat :: "(char \<Rightarrow> bool) \<Rightarrow> pos \<Rightarrow> pos list" where
  "eat P st = (case snd st of [] \<Rightarrow> [] | c # cs \<Rightarrow> if P c then [(Some c, cs)] else [])"

text \<open>
  The positions reachable by repeating \<open>f\<close>: \<open>front\<close> holds the positions found in the
  last round, \<open>seen\<close> all of them. A round that finds something new has consumed a
  character, so the rest of the subject bounds the number of rounds.
\<close>

fun star_close :: "'a list \<Rightarrow> (pos \<Rightarrow> pos list) \<Rightarrow> pos list \<Rightarrow> pos list \<Rightarrow> pos list" where
  "star_close [] f front seen = seen"
| "star_close (x # fuel) f front seen =
     (let new = filter (\<lambda>p. p \<notin> set seen) (remdups (concat (map f front)))
      in if new = [] then seen else star_close fuel f new (seen @ new))"

primrec ends :: "regex \<Rightarrow> pos \<Rightarrow> pos list" where
  "ends (Lit a) st = eat (\<lambda>c. c = a) st"
| "ends Dot st = eat (\<lambda>c. c \<noteq> CHR 0x0A) st"
| "ends Space st = eat is_space st"
| "ends Wordc st = eat is_word st"
| "ends Digit st = eat is_digit st"
| "ends WordB st = (if at_boundary st then [st] else [])"
| "ends Eps st = [st]"
| "ends (Seq r1 r2) st = remdups (concat (map (ends r2) (ends r1 st)))"
| "ends (Alt r1 r2) st = remdups (ends r1 st @ ends r2 st)"
| "ends (Star r) st = star_close (snd st) (ends r) [st] [st]"

text \<open>\<open>re.search(r, s)\<close> finds a match: one starts at some position of \<open>s\<close>.\<close>

fun search_from :: "regex \<Rightarrow> char option \<Rightarrow> string \<Rightarrow> bool" where
  "search_from r prev [] = (ends r (prev, []) \<noteq> [])"
| "search_from r prev (c # cs) =
     (ends r (prev, c # cs) \<noteq> [] \<or> search_from r (Some c) cs)"

definition re_search :: "regex \<Rightarrow> string \<Rightarrow> bool" where
  "re_search r s = search_from r None s"

text \<open>Pattern syntax: a literal string, a sequence, an alternation, \<open>r+\<close> and \<open>.*\<close>.\<close>

definition str :: "string \<Rightarrow> regex" where
  "str s = foldr (\<lambda>c r. Seq (Lit c) r) s Eps"

definition seqs :: "regex list \<Rightarrow> regex" where
  "seqs rs = foldr Seq rs Eps"

fun alts :: "regex list \<Rightarrow> regex" where
  "alts [] = Eps"
| "alts [r] = r"
| "alts (r # rs) = Alt r (alts rs)"

definition rplus :: "regex \<Rightarrow> regex" where
  "rplus r = Seq r (Star r)"

definition dotstar :: regex where
  "dotstar = Star Dot"

section \<open>The pattern table\<close>

text \<open>
  \<open>_initialize_patterns\<close>: the intents in the order the dictionary declares them
  (a Python dictionary iterates in insertion order), each with its patterns and their
  tags, in list order.
\<close>

definition groundwater_status_patterns :: "(regex \<times> string) list" where
  "groundwater_status_patterns =
    [(seqs [alts [str ''what'', str ''show'', str ''tell''], dotstar,
            alts [str ''groundwater'', str ''water''], dotstar, str ''status'', dotstar,
            alts [str ''of'', str ''in'', str ''for''], rplus Space, rplus Wordc],
      ''location_query''),
     (seqs [str ''status'', dotstar, alts [str ''of'', str ''in'', str ''for''],
            rplus Space, rplus Wordc],
      ''location_query''),
     (seqs [str ''groundwater'', dotstar, Wordc, rplus Space,
            alts [str ''district'', str ''block'', str ''state'']],
      ''location_query'')]"

definition critical_areas_patterns :: "(regex \<times> string) list" where
  "critical_areas_patterns =
    [(seqs [alts [str ''show'', str ''list'', str ''which''], dotstar,
            alts [str ''critical'', str ''over-exploited'', str ''danger'']],
      ''critical_query''),
     (seqs [str ''areas'', dotstar,
            alts [str ''critical'', str ''over-exploited'', str ''danger'']],
      ''critical_query''),
     (seqs [alts [str ''critical'', str ''over-exploited''], dotstar,
            alts [str ''areas'', str ''blocks'', str ''districts'']],
      ''critical_query'')]"

definition safe_areas_patterns :: "(regex \<times> string) list" where
  "safe_areas_patterns =
    [(seqs [alts [str ''show'', str ''list'', str ''which''], dotstar,
            alts [str ''safe'', str ''good''], dotstar, str ''areas''],
      ''safe_query''),
     (seqs [str ''areas'', dotstar, str ''safe''], ''safe_query''),
     (seqs [str ''safe'', dotstar, alts [str ''areas'', str ''blocks'', str ''districts'']],
      ''safe_query'')]"

definition water_level_patterns :: "(regex \<times> string) list" where
  "water_level_patterns =
    [(seqs [str ''water level'', dotstar, alts [str ''of'', str ''in'', str ''for''],
            rplus Space, rplus Wordc],
      ''water_level_query''),
     (seqs [alts [str ''depth'', str ''level''], dotstar, str ''water'', dotstar,
            alts [str ''of'', str ''in'', str ''for''], rplus Space, rplus Wordc],
      ''water_level_query''),
     (seqs [str ''how deep'', dotstar, str ''water'', dotstar,
            alts [str ''in'', str ''at''], rplus Space, rplus Wordc],
      ''water_level_query'')]"

definition historical_patterns :: "(regex \<times> string) list" where
  "historical_patterns =
    [(seqs [alts [str ''historical'', str ''history'', str ''trend'', str ''past''], dotstar,
            alts [str ''data'', str ''information'', str ''records'']],
      ''historical_query''),
     (seqs [alts [str ''show'', str ''get''], dotstar,
            alts [str ''trend'', str ''historical'']],
      ''historical_query''),
     (seqs [str ''data'', dotstar, alts [str ''from'', str ''between''], rplus Space,
            Digit, Digit, Digit, Digit],
      ''historical_query'')]"

definition recharge_patterns :: "(regex \<times> string) list" where
  "recharge_patterns =
    [(seqs [alts [str ''recharge'', str ''replenishment''], dotstar,
            alts [str ''rate'', str ''data'', str ''information'']],
      ''recharge_query''),
     (seqs [str ''annual'', dotstar, str ''recharge''], ''recharge_query''),
     (seqs [str ''groundwater'', dotstar, str ''recharge''], ''recharge_query'')]"

definition extraction_patterns :: "(regex \<times> string) list" where
  "extraction_patterns =
    [(seqs [alts [str ''extraction'', str ''withdrawal'', str ''usage''], dotstar,
            alts [str ''rate'', str ''data'', str ''information'']],
      ''extraction_query''),
     (seqs [str ''how much'', dotstar, str ''extract''], ''extraction_query''),
     (seqs [str ''groundwater'', dotstar, alts [str ''extraction'', str ''usage'']],
      ''extraction_query'')]"

definition comparison_patterns :: "(regex \<times> string) list" where
  "comparison_patterns =
    [(seqs [str ''compare'', dotstar, alts [str ''between'', str ''with'']],
      ''comparison_query''),
     (seqs [str ''difference'', dotstar, str ''between''], ''comparison_query''),
     (seqs [alts [str ''better'', str ''worse''], dotstar, str ''than''],
      ''comparison_query'')]"

definition help_patterns :: "(regex \<times> string) list" where
  "help_patterns =
    [(alts [str ''help'', str ''what can you do'', str ''features'', str ''capabilities''],
      ''help_query''),
     (seqs [str ''how'', dotstar,
            alts [str ''to use'', seqs [str ''does'', dotstar, str ''work'']]],
      ''help_query'')]"

definition intent_patterns :: "(string \<times> (regex \<times> string) list) list" where
  "intent_patterns =
    [(''groundwater_status'', groundwater_status_patterns),
     (''critical_areas'', critical_areas_patterns),
     (''safe_areas'', safe_areas_patterns),
     (''water_level'', water_level_patterns),
     (''historical'', historical_patterns),
     (''recharge'', recharge_patterns),
     (''extraction'', extraction_patterns),
     (''comparison'', comparison_patterns),
     (''help'', help_patterns)]"

text \<open>
  The two loops of \<open>classify_intent\<close>. The inner loop stops at the first pattern
  that \<open>re.search\<close> finds in the query; the outer loop returns the intent of the
  first list in which the inner loop stopped.
\<close>

fun first_match :: "(regex \<times> string) list \<Rightarrow> string \<Rightarrow> bool" where
  "first_match [] q = False"
| "first_match ((pattern, tag) # patterns) q =
     (if re_search pattern q then True else first_match patterns q)"

fun classify_loop :: "(string \<times> (regex \<times> string) list) list \<Rightarrow> string \<Rightarrow> string option" where
  "classify_loop [] q = None"
| "classify_loop ((intent, patterns) # rest) q =
     (if first_match patterns q then Some intent else classify_loop rest q)"

section \<open>The store\<close>

text \<open>
  The four tables the program reads, as \<open>init_database.py\<close> creates them. Every column
  holds a value of its declared type (the script writes no NULL), and REAL numbers and
  their arithmetic are modelled exactly, as rationals. A table of the schema may be
  missing (\<open>None\<close>), and the store as a whole may be unreachable (\<open>None\<close>): both make
  \<open>sqlite3\<close> raise \<open>OperationalError\<close>. SQL leaves the order of the rows of a SELECT
  without ORDER BY open; the model returns them in table order, and the rows of a join
  in the order of its first table.
\<close>

record state_row =
  state_id :: int
  state_name :: string

record district_row =
  district_id :: int
  district_name :: string
  d_state_id :: int

record block_row =
  block_id :: int
  block_name :: string
  b_district_id :: int

record assessment_row =
  assessment_id :: int
  ga_block_id :: int
  assessment_year :: int
  annual_recharge_mcm :: rat
  extractable_resources_mcm :: rat
  total_extraction_mcm :: rat
  stage_of_extraction :: rat
  category :: string
  water_level_pre_monsoon :: rat
  water_level_post_monsoon :: rat

record database =
  states_tbl :: "state_row list option"
  districts_tbl :: "district_row list option"
  blocks_tbl :: "block_row list option"
  assessment_tbl :: "assessment_row list option"

type_synonym store = "database option"

text \<open>\<open>sqlite3.connect\<close> followed by \<open>SELECT ... FROM\<close> one table.\<close>

definition select_from :: "store \<Rightarrow> (database \<Rightarrow> 'a list option) \<Rightarrow> py_error + 'a list" where
  "select_from st tbl =
     (case st of
        None \<Rightarrow> Inl OperationalError
      | Some db \<Rightarrow> (case tbl db of None \<Rightarrow> Inl OperationalError | Some rows \<Rightarrow> Inr rows))"

section \<open>Entity extraction\<close>

text \<open>
  \<open>list(set(xs))\<close>: the distinct elements of \<open>xs\<close> in the iteration order of the
  interpreter's hash table. That order is fixed by the string hashes of the running
  process, which are salted at interpreter start; it is the parameter \<open>slot\<close>, which
  ranks the strings.
\<close>

definition py_list_set :: "(string \<Rightarrow> nat) \<Rightarrow> string list \<Rightarrow> string list" where
  "py_list_set slot xs = sort_key slot (remdups xs)"

text \<open>\<open>[d.split()[0].lower() for d in districts]\<close>: indexing an empty split raises.\<close>

fun first_words :: "string list \<Rightarrow> py_error + string list" where
  "first_words [] = Inr []"
| "first_words (d # ds) =
     (case py_split d of
        [] \<Rightarrow> Inl IndexError
      | w # ws \<Rightarrow> (case first_words ds of
                    Inl e \<Rightarrow> Inl e
                  | Inr fs \<Rightarrow> Inr (py_lower w # fs)))"

text \<open>
  The loop over the words of the query. It returns the exception that ended it, if
  any, and the list \<open>locations\<close> as it stood then.
\<close>

fun word_loop :: "string list \<Rightarrow> string list \<Rightarrow> string list \<Rightarrow> string list
                   \<Rightarrow> py_error option \<times> string list" where
  "word_loop states districts [] locations = (None, locations)"
| "word_loop states districts (word # words) locations =
     (if word \<in> set states
      then word_loop states districts words (locations @ [py_title word])
      else (case first_words districts of
              Inl e \<Rightarrow> (Some e, locations)
            | Inr firsts \<Rightarrow>
                if word \<in> set firsts
                then (case find (\<lambda>d. py_startswith d word) districts of
                        Some d \<Rightarrow> word_loop states districts words (locations @ [py_title d])
                      | None \<Rightarrow> word_loop states districts words locations)
                else word_loop states districts words locations))"

text \<open>\<open>for name in names: if name in query_lower: locations.append(name.title())\<close>\<close>

definition names_in :: "string list \<Rightarrow> string \<Rightarrow> string list" where
  "names_in names query_lower = map py_title (filter (\<lambda>n. py_contains n query_lower) names)"

text \<open>The body of the \<open>try\<close> of \<open>_extract_locations\<close>, with the exception it ended in.\<close>

definition locations_try :: "store \<Rightarrow> string \<Rightarrow> py_error option \<times> string list" where
  "locations_try st query =
     (case select_from st states_tbl of
        Inl e \<Rightarrow> (Some e, [])
      | Inr state_rows \<Rightarrow>
     (case select_from st districts_tbl of
        Inl e \<Rightarrow> (Some e, [])
      | Inr district_rows \<Rightarrow>
     (case select_from st blocks_tbl of
        Inl e \<Rightarrow> (Some e, [])
      | Inr block_rows \<Rightarrow>
          (let states = map (\<lambda>r. py_lower (state_name r)) state_rows;
               districts = map (\<lambda>r. py_lower (district_name r)) district_rows;
               blocks = map (\<lambda>r. py_lower (block_name r)) block_rows;
               query_words = py_split (py_lower query);
               query_lower = py_lower query
           in (case word_loop states districts query_words [] of
                 (Some e, locations) \<Rightarrow> (Some e, locations)
               | (None, locations) \<Rightarrow>
                   (None, locations @ names_in states query_lower
                            @ names_in districts query_lower
                            @ names_in blocks query_lower))))))"

text \<open>
  \<open>_extract_locations\<close>: both \<open>except\<close> clauses only print, so whatever ended the
  \<open>try\<close>, the function returns \<open>list(set(locations))\<close>.
\<close>

definition extract_locations :: "(string \<Rightarrow> nat) \<Rightarrow> store \<Rightarrow> string \<Rightarrow> string list" where
  "extract_locations slot st query = py_list_set slot (snd (locations_try st query))"

text \<open>
  \<open>re.findall(r, s)\<close> for a pattern whose one group spans the whole match and whose
  match from a given start is never empty and ends at one position only: the scan
  takes the match at the leftmost start, resumes where the match ended, and returns
  the matched texts in order. \<open>skip\<close> counts the characters of the last match that
  are still to be passed over.
\<close>

fun findall_from :: "regex \<Rightarrow> char option \<Rightarrow> string \<Rightarrow> nat \<Rightarrow> string list" where
  "findall_from r prev [] skip = []"
| "findall_from r prev (c # cs) (Suc k) = findall_from r (Some c) cs k"
| "findall_from r prev (c # cs) 0 =
     (case ends r (prev, c # cs) of
        [] \<Rightarrow> findall_from r (Some c) cs 0
      | e # es \<Rightarrow>
          (let n = length (c # cs) - length (snd e)
           in take n (c # cs) # findall_from r (Some c) cs (n - 1)))"

definition re_findall :: "regex \<Rightarrow> string \<Rightarrow> string list" where
  "re_findall r s = findall_from r None s 0"

text \<open>The pattern \<open>\b(20\d{2})\b\<close>.\<close>

definition year_pattern :: regex where
  "year_pattern = seqs [WordB, Lit (CHR ''2''), Lit (CHR ''0''), Digit, Digit, WordB]"

definition extract_years :: "string \<Rightarrow> int list" where
  "extract_years query = map py_int (re_findall year_pattern query)"

definition extract_categories :: "string \<Rightarrow> string list" where
  "extract_categories query =
     (if py_contains ''safe'' query then [''Safe''] else [])
     @ (if py_contains ''critical'' query then [''Critical''] else [])
     @ (if py_contains ''semi'' query \<or> py_contains ''semi-critical'' query
        then [''Semi-Critical''] else [])
     @ (if py_contains ''over'' query \<or> py_contains ''exploited'' query
        then [''Over-Exploited''] else [])"

text \<open>The dictionary \<open>entities\<close>: a key that is absent is \<open>None\<close>.\<close>

record entities =
  locations :: "string list option"
  years :: "int list option"
  categories :: "string list option"

text \<open>
  \<open>_extract_entities\<close>. Its parameters \<open>intent\<close> and \<open>match\<close> are never read, and the
  model keeps the first only.
\<close>

definition extract_entities :: "(string \<Rightarrow> nat) \<Rightarrow> store \<Rightarrow> string \<Rightarrow> string \<Rightarrow> entities" where
  "extract_entities slot st query intent =
     (let locs = extract_locations slot st query;
          ys = extract_years query;
          cats = extract_categories query
      in \<lparr> locations = (if locs \<noteq> [] then Some locs else None),
           years = (if ys \<noteq> [] then Some ys else None),
           categories = (if cats \<noteq> [] then Some cats else None) \<rparr>)"

text \<open>\<open>classify_intent\<close>\<close>

definition classify_intent :: "(string \<Rightarrow> nat) \<Rightarrow> store \<Rightarrow> string \<Rightarrow> string \<times> entities" where
  "classify_intent slot st query =
     (let query_lower = py_lower query
      in (case classify_loop intent_patterns query_lower of
            Some intent \<Rightarrow> (intent, extract_entities slot st query_lower intent)
          | None \<Rightarrow> (''general'', extract_entities slot st query_lower ''general'')))"

section \<open>Query resolution\<close>

subsection \<open>The SQL of the queries\<close>

text \<open>\<open>LOWER(x)\<close> of SQLite lower-cases the ASCII letters.\<close>

definition sql_lower :: "string \<Rightarrow> string" where
  "sql_lower s = map lower_char s"

text \<open>
  \<open>x LIKE p\<close> of SQLite, as \<open>sql_like p x\<close>: in the pattern \<open>%\<close> stands for any run of
  characters and \<open>_\<close> for any one character; any other character stands for itself,
  ASCII letters without regard to case. The queries bind the pattern as a parameter
  and name no escape character.
\<close>

fun sql_like :: "string \<Rightarrow> string \<Rightarrow> bool" where
  "sql_like [] x = (x = [])"
| "sql_like (p # ps) [] = (p = CHR ''%'' \<and> sql_like ps [])"
| "sql_like (p # ps) (c # cs) =
     (if p = CHR ''%'' then sql_like ps (c # cs) \<or> sql_like (p # ps) cs
      else (p = CHR ''_'' \<or> lower_char p = lower_char c) \<and> sql_like ps cs)"

text \<open>
  \<open>groundwater_assessment ga JOIN blocks b ON ga.block_id = b.block_id JOIN districts d
  ON b.district_id = d.district_id JOIN states s ON d.state_id = s.state_id\<close>
\<close>

type_synonym joined_row = "assessment_row \<times> block_row \<times> district_row \<times> state_row"

definition join_tables ::
  "assessment_row list \<Rightarrow> block_row list \<Rightarrow> district_row list \<Rightarrow> state_row list
   \<Rightarrow> joined_row list" where
  "join_tables gas bs ds ss =
     [(ga, b, d, s).
        ga \<leftarrow> gas,
        b \<leftarrow> bs, ga_block_id ga = block_id b,
        d \<leftarrow> ds, b_district_id b = district_id d,
        s \<leftarrow> ss, d_state_id d = state_id s]"

definition joined :: "database \<Rightarrow> py_error + joined_row list" where
  "joined db =
     (case (assessment_tbl db, blocks_tbl db, districts_tbl db, states_tbl db) of
        (Some gas, Some bs, Some ds, Some ss) \<Rightarrow> Inr (join_tables gas bs ds ss)
      | _ \<Rightarrow> Inl OperationalError)"

definition assessments :: "database \<Rightarrow> py_error + assessment_row list" where
  "assessments db =
     (case assessment_tbl db of Some gas \<Rightarrow> Inr gas | None \<Rightarrow> Inl OperationalError)"

text \<open>The parameter \<open>f'%{location.lower()}%'\<close>.\<close>

definition like_pattern :: "string \<Rightarrow> string" where
  "like_pattern location = ''%'' @ py_lower location @ ''%''"

text \<open>\<open>LOWER(s.state_name) LIKE ? OR LOWER(d.district_name) LIKE ?\<close>\<close>

definition location_matches :: "string \<Rightarrow> joined_row \<Rightarrow> bool" where
  "location_matches location r =
     (case r of (ga, b, d, s) \<Rightarrow>
        sql_like (like_pattern location) (sql_lower (state_name s))
        \<or> sql_like (like_pattern location) (sql_lower (district_name d)))"

text \<open>
  \<open>AVG\<close> and \<open>SUM\<close> over no row are NULL (\<open>None\<close>). Over rows the model takes them
  of the exact values. SQLite adds IEEE doubles, so the number the code gets can
  differ from the exact one in its last bits, and after \<open>round(x, 2)\<close> by 0.01 where
  the exact value lies at a tie.
\<close>

definition sql_avg :: "rat list \<Rightarrow> rat option" where
  "sql_avg xs = (if xs = [] then None else Some (sum_list xs / of_nat (length xs)))"

definition sql_sum :: "rat list \<Rightarrow> rat option" where
  "sql_sum xs = (if xs = [] then None else Some (sum_list xs))"

definition count_distinct :: "'a list \<Rightarrow> int" where
  "count_distinct xs = int (length (remdups xs))"

text \<open>
  \<open>round(x, 2)\<close>: the nearest multiple of 0.01, a tie going to the even one. On
  \<open>None\<close> it raises \<open>TypeError\<close>.
\<close>

definition round_half_even :: "rat \<Rightarrow> int" where
  "round_half_even y =
     (let f = \<lfloor>y\<rfloor>; r = y - of_int f
      in if r < 1 / 2 then f else if 1 / 2 < r then f + 1
         else if even f then f else f + 1)"

definition round2 :: "rat \<Rightarrow> rat" where
  "round2 x = of_int (round_half_even (x * 100)) / 100"

definition round2_nullable :: "rat option \<Rightarrow> py_error + rat" where
  "round2_nullable v = (case v of None \<Rightarrow> Inl TypeError | Some x \<Rightarrow> Inr (round2 x))"

subsection \<open>The results\<close>

record status_block =
  sb_block_name :: string
  sb_category :: string
  sb_stage_of_extraction :: rat
  sb_water_level :: rat
  sb_annual_recharge :: rat
  sb_district :: string
  sb_state :: string

record safe_area =
  sa_block :: string
  sa_district :: string
  sa_state :: string
  sa_extraction_percentage :: rat
  sa_annual_recharge :: rat

text \<open>
  The other records, as tuples in the order of their keys:
  \<open>block, district, state, category, extraction_percentage\<close>;
  \<open>block, pre_monsoon, post_monsoon, year\<close>;
  \<open>year, avg_extraction, avg_water_level, blocks_assessed\<close>;
  \<open>block, annual_recharge, extractable_resources\<close>;
  \<open>block, total_extraction, extraction_stage, category\<close>.
\<close>

type_synonym critical_area = "string \<times> string \<times> string \<times> string \<times> rat"
type_synonym water_level = "string \<times> rat \<times> rat \<times> int"
type_synonym trend = "int \<times> rat \<times> rat \<times> int"
type_synonym recharge = "string \<times> rat \<times> rat"
type_synonym extraction = "string \<times> rat \<times> rat \<times> string"

text \<open>
  The dictionary a strategy returns, by its keys: \<open>location, year, blocks\<close>;
  \<open>critical_areas\<close>; \<open>safe_areas\<close>; \<open>location, water_levels\<close>; \<open>average_water_levels\<close>
  (\<open>pre_monsoon, post_monsoon\<close>); \<open>historical_trends, location\<close>;
  \<open>location, recharge_data\<close>; \<open>national_recharge\<close> (\<open>average_annual_recharge,
  average_extractable, total_recharge\<close>); \<open>location, extraction_data\<close>;
  \<open>national_extraction\<close> (\<open>average_extraction, average_stage, total_extraction\<close>);
  \<open>help\<close>; \<open>general_stats\<close> (\<open>states_covered, districts_covered, blocks_covered,
  average_extraction_stage\<close>).
\<close>

datatype response =
    Groundwater_status string int "status_block list"
  | Critical_areas "critical_area list"
  | Safe_areas "safe_area list"
  | Water_levels string "water_level list"
  | Average_water_levels rat rat
  | Historical_trends "trend list" string
  | Recharge_data string "recharge list"
  | National_recharge rat rat rat
  | Extraction_data string "extraction list"
  | National_extraction rat rat rat
  | Help "string list"
  | General_stats int int int rat

subsection \<open>The strategies\<close>

text \<open>
  \<open>entities.get('locations', d)[0] if entities.get('locations') else None\<close>: an absent
  key and an empty list both give \<open>None\<close>.
\<close>

definition first_location :: "entities \<Rightarrow> string option" where
  "first_location e = (case locations e of Some (l # ls) \<Rightarrow> Some l | _ \<Rightarrow> None)"

definition first_year :: "entities \<Rightarrow> int option" where
  "first_year e = (case years e of Some (y # ys) \<Rightarrow> Some y | _ \<Rightarrow> None)"

text \<open>\<open>if location:\<close> holds for a string that is not empty.\<close>

definition scoped_location :: "entities \<Rightarrow> string option" where
  "scoped_location e =
     (case first_location e of
        None \<Rightarrow> None
      | Some l \<Rightarrow> if l = [] then None else Some l)"

definition status_rows :: "string \<Rightarrow> int \<Rightarrow> joined_row list \<Rightarrow> joined_row list" where
  "status_rows location year rows =
     take 10 (filter (\<lambda>r. location_matches location r \<and> assessment_year (fst r) = year) rows)"

definition status_record :: "joined_row \<Rightarrow> status_block" where
  "status_record r =
     (case r of (ga, b, d, s) \<Rightarrow>
        \<lparr> sb_block_name = block_name b,
          sb_category = category ga,
          sb_stage_of_extraction = round2 (stage_of_extraction ga),
          sb_water_level = round2 (water_level_pre_monsoon ga),
          sb_annual_recharge = round2 (annual_recharge_mcm ga),
          sb_district = district_name d,
          sb_state = state_name s \<rparr>)"

definition get_groundwater_status :: "database \<Rightarrow> entities \<Rightarrow> py_error + response" where
  "get_groundwater_status db e =
     (let location = (case first_location e of Some l \<Rightarrow> l | None \<Rightarrow> ''Delhi'');
          year = (case first_year e of Some y \<Rightarrow> y | None \<Rightarrow> 2024)
      in (case joined db of
            Inl err \<Rightarrow> Inl err
          | Inr rows \<Rightarrow>
              Inr (Groundwater_status location year
                     (map status_record (status_rows location year rows)))))"

definition critical_rows :: "joined_row list \<Rightarrow> joined_row list" where
  "critical_rows rows =
     take 15 (sort_key (\<lambda>r. - stage_of_extraction (fst r))
       (filter (\<lambda>r. category (fst r) \<in> {''Critical'', ''Over-Exploited''}
                    \<and> assessment_year (fst r) = 2024) rows))"

definition critical_record :: "joined_row \<Rightarrow> critical_area" where
  "critical_record r =
     (case r of (ga, b, d, s) \<Rightarrow>
        (block_name b, district_name d, state_name s, category ga,
         round2 (stage_of_extraction ga)))"

definition get_critical_areas :: "database \<Rightarrow> py_error + response" where
  "get_critical_areas db =
     (case joined db of
        Inl err \<Rightarrow> Inl err
      | Inr rows \<Rightarrow> Inr (Critical_areas (map critical_record (critical_rows rows))))"

definition safe_rows :: "joined_row list \<Rightarrow> joined_row list" where
  "safe_rows rows =
     take 15 (sort_key (\<lambda>r. stage_of_extraction (fst r))
       (filter (\<lambda>r. category (fst r) = ''Safe'' \<and> assessment_year (fst r) = 2024) rows))"

definition safe_record :: "joined_row \<Rightarrow> safe_area" where
  "safe_record r =
     (case r of (ga, b, d, s) \<Rightarrow>
        \<lparr> sa_block = block_name b,
          sa_district = district_name d,
          sa_state = state_name s,
          sa_extraction_percentage = round2 (stage_of_extraction ga),
          sa_annual_recharge = round2 (annual_recharge_mcm ga) \<rparr>)"

definition get_safe_areas :: "database \<Rightarrow> py_error + response" where
  "get_safe_areas db =
     (case joined db of
        Inl err \<Rightarrow> Inl err
      | Inr rows \<Rightarrow> Inr (Safe_areas (map safe_record (safe_rows rows))))"

text \<open>The rows of the location-scoped queries for the year 2024, \<open>LIMIT 10\<close>.\<close>

definition scoped_rows :: "string \<Rightarrow> joined_row list \<Rightarrow> joined_row list" where
  "scoped_rows location rows =
     take 10 (filter (\<lambda>r. location_matches location r \<and> assessment_year (fst r) = 2024) rows)"

definition rows_2024 :: "assessment_row list \<Rightarrow> assessment_row list" where
  "rows_2024 gas = filter (\<lambda>ga. assessment_year ga = 2024) gas"

definition water_level_record :: "joined_row \<Rightarrow> water_level" where
  "water_level_record r =
     (case r of (ga, b, d, s) \<Rightarrow>
        (block_name b, round2 (water_level_pre_monsoon ga),
         round2 (water_level_post_monsoon ga), assessment_year ga))"

definition recharge_record :: "joined_row \<Rightarrow> recharge" where
  "recharge_record r =
     (case r of (ga, b, d, s) \<Rightarrow>
        (block_name b, round2 (annual_recharge_mcm ga),
         round2 (extractable_resources_mcm ga)))"

definition extraction_record :: "joined_row \<Rightarrow> extraction" where
  "extraction_record r =
     (case r of (ga, b, d, s) \<Rightarrow>
        (block_name b, round2 (total_extraction_mcm ga),
         round2 (stage_of_extraction ga), category ga))"

definition get_water_levels :: "database \<Rightarrow> entities \<Rightarrow> py_error + response" where
  "get_water_levels db e =
     (case scoped_location e of
        Some location \<Rightarrow>
          (case joined db of
             Inl err \<Rightarrow> Inl err
           | Inr rows \<Rightarrow>
               Inr (Water_levels location
                      (map water_level_record (scoped_rows location rows))))
      | None \<Rightarrow>
          (case assessments db of
             Inl err \<Rightarrow> Inl err
           | Inr gas \<Rightarrow>
               (case round2_nullable (sql_avg (map water_level_pre_monsoon (rows_2024 gas))) of
                  Inl err \<Rightarrow> Inl err
                | Inr pre \<Rightarrow>
               (case round2_nullable (sql_avg (map water_level_post_monsoon (rows_2024 gas))) of
                  Inl err \<Rightarrow> Inl err
                | Inr post \<Rightarrow> Inr (Average_water_levels pre post)))))"

text \<open>
  \<open>GROUP BY assessment_year ORDER BY assessment_year\<close>: one row for each year that
  occurs, in ascending order, with the averages and the count of its group.
\<close>

definition year_groups ::
  "('r \<Rightarrow> assessment_row) \<Rightarrow> ('r \<Rightarrow> int) \<Rightarrow> 'r list
   \<Rightarrow> (int \<times> rat option \<times> rat option \<times> int) list" where
  "year_groups ga_of block_of rows =
     map (\<lambda>y. (let g = filter (\<lambda>r. assessment_year (ga_of r) = y) rows
                in (y, sql_avg (map (\<lambda>r. stage_of_extraction (ga_of r)) g),
                       sql_avg (map (\<lambda>r. water_level_pre_monsoon (ga_of r)) g),
                       count_distinct (map block_of g))))
         (sort (remdups (map (\<lambda>r. assessment_year (ga_of r)) rows)))"

text \<open>The comprehension that rounds each row of the result.\<close>

fun trend_records :: "(int \<times> rat option \<times> rat option \<times> int) list \<Rightarrow> py_error + trend list" where
  "trend_records [] = Inr []"
| "trend_records ((y, avg_stage, avg_level, n) # rows) =
     (case round2_nullable avg_stage of
        Inl err \<Rightarrow> Inl err
      | Inr a \<Rightarrow>
     (case round2_nullable avg_level of
        Inl err \<Rightarrow> Inl err
      | Inr w \<Rightarrow>
     (case trend_records rows of
        Inl err \<Rightarrow> Inl err
      | Inr ts \<Rightarrow> Inr ((y, a, w, n) # ts))))"

text \<open>\<open>b.block_id\<close> of a joined row.\<close>

definition joined_block_id :: "joined_row \<Rightarrow> int" where
  "joined_block_id r = (case r of (ga, b, d, s) \<Rightarrow> block_id b)"

text \<open>
  \<open>_get_historical_data\<close>. The first statement binds \<open>years\<close> to the entity or to the
  default list; nothing reads it afterwards.
\<close>

definition get_historical_data :: "database \<Rightarrow> entities \<Rightarrow> py_error + response" where
  "get_historical_data db e =
     (let years = (case years e of Some ys \<Rightarrow> ys | None \<Rightarrow> [2020, 2021, 2022, 2023, 2024])
      in (case scoped_location e of
            Some location \<Rightarrow>
              (case joined db of
                 Inl err \<Rightarrow> Inl err
               | Inr rows \<Rightarrow>
                   (case trend_records
                           (year_groups fst joined_block_id
                              (filter (location_matches location) rows)) of
                      Inl err \<Rightarrow> Inl err
                    | Inr ts \<Rightarrow> Inr (Historical_trends ts location)))
          | None \<Rightarrow>
              (case assessments db of
                 Inl err \<Rightarrow> Inl err
               | Inr gas \<Rightarrow>
                   (case trend_records (year_groups id ga_block_id gas) of
                      Inl err \<Rightarrow> Inl err
                    | Inr ts \<Rightarrow> Inr (Historical_trends ts ''All India'')))))"

definition get_recharge_data :: "database \<Rightarrow> entities \<Rightarrow> py_error + response" where
  "get_recharge_data db e =
     (case scoped_location e of
        Some location \<Rightarrow>
          (case joined db of
             Inl err \<Rightarrow> Inl err
           | Inr rows \<Rightarrow>
               Inr (Recharge_data location
                      (map recharge_record (scoped_rows location rows))))
      | None \<Rightarrow>
          (case assessments db of
             Inl err \<Rightarrow> Inl err
           | Inr gas \<Rightarrow>
               (case round2_nullable (sql_avg (map annual_recharge_mcm (rows_2024 gas))) of
                  Inl err \<Rightarrow> Inl err
                | Inr avg_recharge \<Rightarrow>
               (case round2_nullable (sql_avg (map extractable_resources_mcm (rows_2024 gas))) of
                  Inl err \<Rightarrow> Inl err
                | Inr avg_extractable \<Rightarrow>
               (case round2_nullable (sql_sum (map annual_recharge_mcm (rows_2024 gas))) of
                  Inl err \<Rightarrow> Inl err
                | Inr total_recharge \<Rightarrow>
                    Inr (National_recharge avg_recharge avg_extractable total_recharge))))))"

definition get_extraction_data :: "database \<Rightarrow> entities \<Rightarrow> py_error + response" where
  "get_extraction_data db e =
     (case scoped_location e of
        Some location \<Rightarrow>
          (case joined db of
             Inl err \<Rightarrow> Inl err
           | Inr rows \<Rightarrow>
               Inr (Extraction_data location
                      (map extraction_record (scoped_rows location rows))))
      | None \<Rightarrow>
          (case assessments db of
             Inl err \<Rightarrow> Inl err
           | Inr gas \<Rightarrow>
               (case round2_nullable (sql_avg (map total_extraction_mcm (rows_2024 gas))) of
                  Inl err \<Rightarrow> Inl err
                | Inr avg_extraction \<Rightarrow>
               (case round2_nullable (sql_avg (map stage_of_extraction (rows_2024 gas))) of
                  Inl err \<Rightarrow> Inl err
                | Inr avg_stage \<Rightarrow>
               (case round2_nullable (sql_sum (map total_extraction_mcm (rows_2024 gas))) of
                  Inl err \<Rightarrow> Inl err
                | Inr total_extraction \<Rightarrow>
                    Inr (National_extraction avg_extraction avg_stage total_extraction))))))"

definition get_general_stats :: "database \<Rightarrow> py_error + response" where
  "get_general_stats db =
     (case joined db of
        Inl err \<Rightarrow> Inl err
      | Inr rows \<Rightarrow>
          (let rs = filter (\<lambda>r. assessment_year (fst r) = 2024) rows
           in (case round2_nullable (sql_avg (map (\<lambda>r. stage_of_extraction (fst r)) rs)) of
                 Inl err \<Rightarrow> Inl err
               | Inr avg_stage \<Rightarrow>
                   Inr (General_stats
                          (count_distinct (map (\<lambda>(ga, b, d, s). state_id s) rs))
                          (count_distinct (map (\<lambda>(ga, b, d, s). district_id d) rs))
                          (count_distinct (map (\<lambda>(ga, b, d, s). block_id b) rs))
                          avg_stage))))"

definition get_help_info :: response where
  "get_help_info =
     Help [''You can ask about groundwater status in any state/district/block.'',
           ''Examples:'',
           ''- What is the groundwater status in Karnataka?'',
           ''- Show critical areas in Tamil Nadu'',
           ''- What is the average water level in Delhi?'',
           ''- Give me historical trends for Punjab'',
           ''- Compare extraction between states'',
           ''- List safe areas in Maharashtra'',
           ''- Show recharge and extraction rates'']"

text \<open>
  \<open>_get_response_data\<close>: the connection is opened first, then the chain of
  comparisons picks the strategy. An exception of a strategy is not caught.
\<close>

definition get_response_data :: "store \<Rightarrow> string \<Rightarrow> entities \<Rightarrow> py_error + response" where
  "get_response_data st intent e =
     (case st of
        None \<Rightarrow> Inl OperationalError
      | Some db \<Rightarrow>
          if intent = ''groundwater_status'' then get_groundwater_status db e
          else if intent = ''critical_areas'' then get_critical_areas db
          else if intent = ''safe_areas'' then get_safe_areas db
          else if intent = ''water_level'' then get_water_levels db e
          else if intent = ''historical'' then get_historical_data db e
          else if intent = ''recharge'' then get_recharge_data db e
          else if intent = ''extraction'' then get_extraction_data db e
          else if intent = ''help'' then Inr get_help_info
          else get_general_stats db)"

record query_result =
  r_intent :: string
  r_entities :: entities
  r_data :: response
  r_query :: string

text \<open>\<open>process_query\<close>\<close>

definition process_query :: "(string \<Rightarrow> nat) \<Rightarrow> store \<Rightarrow> string \<Rightarrow> py_error + query_result" where
  "process_query slot st query =
     (case classify_intent slot st query of
        (intent, e) \<Rightarrow>
          (case get_response_data st intent e of
             Inl err \<Rightarrow> Inl err
           | Inr response_data \<Rightarrow>
               Inr \<lparr> r_intent = intent, r_entities = e,
                     r_data = response_data, r_query = query \<rparr>))"

section \<open>Properties\<close>

subsection \<open>Strings\<close>

lemma py_startswith_prefix: "py_startswith s p = prefix p s"
  by (induction s p rule: py_startswith.induct) auto

lemma py_contains_sublist: "py_contains sub s = sublist sub s"
  by (induction s) (auto simp: py_startswith_prefix sublist_Cons_right)

lemmas char_class_defs =
  is_word_def is_alpha_def is_upper_def is_lower_def is_digit_def is_space_def
  upper_letters_def lower_letters_def digit_chars_def lower_char_def upper_char_def

lemmas regex_defs =
  str_def seqs_def rplus_def dotstar_def re_search_def eat_def
  at_boundary_def word_before_def word_after_def Let_def

lemmas pattern_defs =
  groundwater_status_patterns_def critical_areas_patterns_def safe_areas_patterns_def
  water_level_patterns_def historical_patterns_def recharge_patterns_def
  extraction_patterns_def comparison_patterns_def help_patterns_def intent_patterns_def

subsection \<open>Intent classification\<close>

text \<open>The pattern table read in order: every pattern with the intent it stands under.\<close>

definition flat_patterns :: "(string \<times> regex) list" where
  "flat_patterns =
     concat (map (\<lambda>(intent, patterns). map (\<lambda>(pattern, tag). (intent, pattern)) patterns)
                 intent_patterns)"

lemma find_append_opt:
  "find P (xs @ ys) = (case find P xs of Some x \<Rightarrow> Some x | None \<Rightarrow> find P ys)"
  by (induction xs) auto

lemma first_match_find:
  "first_match ps q =
     (find (\<lambda>(i, p). re_search p q) (map (\<lambda>(pattern, tag). (intent, pattern)) ps) \<noteq> None)"
  by (induction ps q rule: first_match.induct) auto

lemma first_match_find_intent:
  "find (\<lambda>(i, p). re_search p q) (map (\<lambda>(pattern, tag). (intent, pattern)) ps) = Some x
   \<Longrightarrow> fst x = intent"
  by (induction ps) (auto split: if_splits)

lemma classify_loop_find:
  "classify_loop tbl q =
     map_option fst
       (find (\<lambda>(i, p). re_search p q)
          (concat (map (\<lambda>(intent, patterns). map (\<lambda>(pattern, tag). (intent, pattern)) patterns) tbl)))"
proof (induction tbl)
  case Nil
  show ?case by simp
next
  case (Cons a tbl)
  obtain intent ps where a: "a = (intent, ps)" by (cases a)
  show ?case
  proof (cases "first_match ps q")
    case True
    then obtain x where x: "find (\<lambda>(i, p). re_search p q) (map (\<lambda>(pattern, tag). (intent, pattern)) ps) = Some x"
      by (auto simp: first_match_find[of ps q intent])
    with True show ?thesis using first_match_find_intent[OF x]
      by (simp add: a find_append_opt)
  next
    case False
    have n: "find (\<lambda>(i, p). re_search p q) (map (\<lambda>(pattern, tag). (intent, pattern)) ps) = None"
      using False first_match_find[of ps q intent] by blast
    show ?thesis using False Cons by (simp add: a find_append_opt n)
  qed
qed

text \<open>
  C1. The intents stand in the table in their declaration order, and for every query
  the classifier returns the intent of the first pattern of the table, read in that
  order, that \<open>re.search\<close> finds in the lower-cased query; when no pattern of any
  intent is found there, it returns \<open>general\<close>.
\<close>

theorem classify_intent_first_match:
  "map fst intent_patterns =
     [''groundwater_status'', ''critical_areas'', ''safe_areas'', ''water_level'',
      ''historical'', ''recharge'', ''extraction'', ''comparison'', ''help'']
   \<and> fst (classify_intent slot st query) =
       (case find (\<lambda>(intent, pattern). re_search pattern (py_lower query)) flat_patterns of
          Some (intent, pattern) \<Rightarrow> intent
        | None \<Rightarrow> ''general'')"
proof -
  have "map fst intent_patterns =
     [''groundwater_status'', ''critical_areas'', ''safe_areas'', ''water_level'',
      ''historical'', ''recharge'', ''extraction'', ''comparison'', ''help'']"
    by (simp add: intent_patterns_def)
  moreover have "fst (classify_intent slot st query) =
       (case find (\<lambda>(intent, pattern). re_search pattern (py_lower query)) flat_patterns of
          Some (intent, pattern) \<Rightarrow> intent
        | None \<Rightarrow> ''general'')"
    unfolding classify_intent_def Let_def flat_patterns_def classify_loop_find
    by (simp split: option.splits prod.splits)
  ultimately show ?thesis by blast
qed

text \<open>
  The query below matches a pattern of \<open>safe_areas\<close> and one of \<open>groundwater_status\<close>;
  the earlier intent wins. A query no pattern matches is \<open>general\<close>.
\<close>

theorem classify_intent_first_match_witness:
  "fst (classify_intent (\<lambda>s. 0) None ''Show safe areas, status of Delhi'') = ''groundwater_status''
   \<and> fst (classify_intent (\<lambda>s. 0) None ''Good morning'') = ''general''"
proof -
  have a: "find (\<lambda>(intent, pattern). re_search pattern (py_lower ''Show safe areas, status of Delhi''))
             flat_patterns
           = Some (''groundwater_status'', fst (groundwater_status_patterns ! 1))"
    by code_simp
  have b: "find (\<lambda>(intent, pattern). re_search pattern (py_lower ''Good morning'')) flat_patterns
           = None"
    by code_simp
  show ?thesis
    using classify_intent_first_match [of "\<lambda>s. 0" None "''Show safe areas, status of Delhi''"]
          classify_intent_first_match [of "\<lambda>s. 0" None "''Good morning''"]
    by (simp add: a b)
qed

subsection \<open>Entity extraction\<close>

lemma extract_entities_intent:
  "extract_entities slot st q i = extract_entities slot st q j"
  by (simp add: extract_entities_def)

lemma classify_intent_entities:
  "snd (classify_intent slot st query) = extract_entities slot st (py_lower query) i"
  by (simp add: classify_intent_def Let_def extract_entities_def split: option.splits)

text \<open>
  C8. Each of the four category checks is a substring test of its own on the query
  that \<open>classify_intent\<close> lower-cased, and fires whatever the others do: a query with
  both \<open>semi\<close> and \<open>critical\<close> gets \<open>Semi-Critical\<close> and \<open>Critical\<close>. The key
  \<open>categories\<close> is present exactly when one of the checks fires.
\<close>

theorem category_checks_independent:
  "(''Safe'' \<in> set (extract_categories q) \<longleftrightarrow> sublist ''safe'' q)
   \<and> (''Critical'' \<in> set (extract_categories q) \<longleftrightarrow> sublist ''critical'' q)
   \<and> (''Semi-Critical'' \<in> set (extract_categories q)
        \<longleftrightarrow> sublist ''semi'' q \<or> sublist ''semi-critical'' q)
   \<and> (''Over-Exploited'' \<in> set (extract_categories q)
        \<longleftrightarrow> sublist ''over'' q \<or> sublist ''exploited'' q)
   \<and> set (extract_categories q) \<subseteq> {''Safe'', ''Critical'', ''Semi-Critical'', ''Over-Exploited''}
   \<and> (sublist ''semi'' q \<and> sublist ''critical'' q
        \<longrightarrow> {''Semi-Critical'', ''Critical''} \<subseteq> set (extract_categories q))
   \<and> (q = py_lower query \<longrightarrow>
        categories (snd (classify_intent slot st query))
          = (if extract_categories q = [] then None else Some (extract_categories q))
        \<and> (categories (snd (classify_intent slot st query)) \<noteq> None
             \<longleftrightarrow> sublist ''safe'' q \<or> sublist ''critical'' q \<or> sublist ''semi'' q
                 \<or> sublist ''semi-critical'' q \<or> sublist ''over'' q \<or> sublist ''exploited'' q))"
  by (auto simp: extract_categories_def py_contains_sublist
        classify_intent_entities[of slot st query "''general''"] extract_entities_def Let_def)

theorem category_checks_independent_witness:
  "categories (snd (classify_intent (\<lambda>s. 0) None ''List Semi-Critical blocks''))
     = Some [''Critical'', ''Semi-Critical'']"
proof -
  have a: "py_lower ''List Semi-Critical blocks'' = ''list semi-critical blocks''"
    by code_simp
  have b: "extract_categories ''list semi-critical blocks'' = [''Critical'', ''Semi-Critical'']"
    by code_simp
  show ?thesis
    using category_checks_independent
            [of "''list semi-critical blocks''" "''List Semi-Critical blocks''" "\<lambda>s. 0" None]
    by (simp add: a b)
qed

text \<open>
  C3. When the store is unreachable, or one of the three catalog tables is missing,
  the \<open>try\<close> of \<open>_extract_locations\<close> ends in \<open>OperationalError\<close> before any location
  is appended; the function swallows it and returns the empty list, and the entities
  have no key \<open>locations\<close>.
\<close>

theorem locations_empty_when_store_fails:
  assumes "st = None
           \<or> (\<exists>db. st = Some db
                 \<and> (states_tbl db = None \<or> districts_tbl db = None \<or> blocks_tbl db = None))"
  shows "locations_try st q = (Some OperationalError, [])
         \<and> extract_locations slot st q = []
         \<and> locations (extract_entities slot st q intent) = None
         \<and> locations (snd (classify_intent slot st query)) = None"
proof -
  have t: "locations_try st q' = (Some OperationalError, [])" for q'
    using assms by (auto simp: locations_try_def select_from_def split: option.splits)
  have l: "extract_locations slot st q' = []" for q'
    by (simp add: extract_locations_def t py_list_set_def)
  show ?thesis
    by (simp add: t l extract_entities_def Let_def
          classify_intent_entities[of slot st query "''general''"])
qed

theorem locations_empty_when_store_fails_witness:
  "extract_locations (\<lambda>s. 0) None ''status of delhi'' = []
   \<and> locations (snd (classify_intent (\<lambda>s. 0)
        (Some \<lparr> states_tbl = Some [\<lparr> state_id = 1, state_name = ''Delhi'' \<rparr>],
                districts_tbl = Some [], blocks_tbl = None, assessment_tbl = Some [] \<rparr>)
        ''Status of Delhi'')) = None"
  using locations_empty_when_store_fails [of None "''status of delhi''" "\<lambda>s. 0"]
        locations_empty_when_store_fails
          [of "Some \<lparr> states_tbl = Some [\<lparr> state_id = 1, state_name = ''Delhi'' \<rparr>],
                districts_tbl = Some [], blocks_tbl = None, assessment_tbl = Some [] \<rparr>"
              _ "\<lambda>s. 0" _ "''Status of Delhi''"]
  by simp

subsection \<open>Year extraction\<close>

text \<open>
  A year token starts at a position: the subject goes on with \<open>2\<close>, \<open>0\<close> and two
  digits, the character before the position (if any) is no word character, and neither
  is the character after the four (if any).
\<close>

definition year_here :: "char option \<Rightarrow> string \<Rightarrow> bool" where
  "year_here prev s =
     (case s of
        a # b # c # d # rest \<Rightarrow>
          a = CHR ''2'' \<and> b = CHR ''0'' \<and> is_digit c \<and> is_digit d
          \<and> \<not> word_before (prev, s) \<and> \<not> word_after (Some d, rest)
      | _ \<Rightarrow> False)"

text \<open>The year tokens of a subject, position by position, every position looked at.\<close>

fun year_tokens :: "char option \<Rightarrow> string \<Rightarrow> string list" where
  "year_tokens prev [] = []"
| "year_tokens prev (c # cs) =
     (if year_here prev (c # cs) then [take 4 (c # cs)] else []) @ year_tokens (Some c) cs"

lemma is_digit_word: "is_digit c \<Longrightarrow> is_word c"
  by (simp add: is_word_def)

lemma is_word_2: "is_word (CHR ''2'')" "is_word (CHR ''0'')"
  by (simp_all add: char_class_defs)

lemma ends_year_pattern:
  "ends year_pattern (prev, s) =
     (if year_here prev s then [(Some (s ! 3), drop 4 s)] else [])"
proof (cases s)
  case Nil
  then show ?thesis
    by (simp add: year_pattern_def seqs_def eat_def year_here_def at_boundary_def
          word_before_def word_after_def)
next
  case s1: (Cons a s1)
  show ?thesis
  proof (cases s1)
    case Nil
    then show ?thesis using s1
      by (simp add: year_pattern_def seqs_def eat_def year_here_def)
  next
    case s2: (Cons b s2)
    show ?thesis
    proof (cases s2)
      case Nil
      then show ?thesis using s1 s2
        by (simp add: year_pattern_def seqs_def eat_def year_here_def)
    next
      case s3: (Cons c s3)
      show ?thesis
      proof (cases s3)
        case Nil
        then show ?thesis using s1 s2 s3
          by (simp add: year_pattern_def seqs_def eat_def year_here_def)
      next
        case (Cons d rest)
        then show ?thesis using s1 s2 s3
          by (auto simp: year_pattern_def seqs_def eat_def year_here_def at_boundary_def
                word_before_def word_after_def is_word_2 is_digit_word)
      qed
    qed
  qed
qed


text \<open>
  While the scan passes over the last match, the character before the position is a
  word character: no year token starts there.
\<close>

definition in_match :: "nat \<Rightarrow> char option \<Rightarrow> string \<Rightarrow> bool" where
  "in_match k prev s =
     (k = 0 \<or> (word_before (prev, s) \<and> k - 1 \<le> length s \<and> list_all is_word (take (k - 1) s)))"

lemma year_here_not_word_before: "year_here prev s \<Longrightarrow> \<not> word_before (prev, s)"
  by (auto simp: year_here_def word_before_def split: list.splits)

lemma year_here_length: "year_here prev s \<Longrightarrow> 4 \<le> length s"
  by (auto simp: year_here_def split: list.splits)

lemma year_here_in_match: "year_here prev (c # cs) \<Longrightarrow> in_match 3 (Some c) cs"
  by (auto simp: year_here_def in_match_def word_before_def is_word_2 is_digit_word
        split: list.splits)

lemma in_match_step: "in_match (Suc k) prev (c # cs) \<Longrightarrow> in_match k (Some c) cs"
  by (cases k) (auto simp: in_match_def word_before_def)

lemma findall_year_tokens:
  "in_match k prev s \<Longrightarrow> findall_from year_pattern prev s k = year_tokens prev s"
proof (induction s arbitrary: prev k)
  case Nil
  show ?case by simp
next
  case (Cons c cs)
  show ?case
  proof (cases k)
    case 0
    show ?thesis
    proof (cases "year_here prev (c # cs)")
      case True
      have len: "length (c # cs) - length (drop 4 (c # cs)) = 4"
        using year_here_length[OF True] by simp
      have "findall_from year_pattern (Some c) cs 3 = year_tokens (Some c) cs"
        by (rule Cons.IH[OF year_here_in_match[OF True]])
      then show ?thesis using True 0 len
        by (simp add: ends_year_pattern Let_def del: length_drop drop_Suc_Cons)
    next
      case False
      have "findall_from year_pattern (Some c) cs 0 = year_tokens (Some c) cs"
        by (rule Cons.IH) (simp add: in_match_def)
      then show ?thesis using False 0 by (simp add: ends_year_pattern)
    qed
  next
    case (Suc k')
    have nw: "\<not> year_here prev (c # cs)"
      using Cons.prems Suc year_here_not_word_before[of prev "c # cs"]
      by (auto simp: in_match_def)
    have "findall_from year_pattern (Some c) cs k' = year_tokens (Some c) cs"
      by (rule Cons.IH[OF in_match_step]) (use Cons.prems Suc in simp)
    then show ?thesis using Suc nw by simp
  qed
qed

lemma re_findall_year_tokens: "re_findall year_pattern s = year_tokens None s"
  by (simp add: re_findall_def findall_year_tokens in_match_def)

text \<open>The positions seen as indices into the subject.\<close>

definition year_at :: "string \<Rightarrow> nat \<Rightarrow> bool" where
  "year_at s i = year_here (if i = 0 then None else Some (s ! (i - 1))) (drop i s)"

lemma year_tokens_positions:
  "year_tokens prev s =
     map (\<lambda>i. take 4 (drop i s))
       (filter (\<lambda>i. year_here (if i = 0 then prev else Some (s ! (i - 1))) (drop i s))
          [0..<length s])"
proof (induction s arbitrary: prev)
  case Nil
  show ?case by simp
next
  case (Cons c cs)
  have up: "[0..<length (c # cs)] = 0 # map Suc [0..<length cs]"
    by (simp add: upt_conv_Cons map_Suc_upt del: upt_Suc)
  have ih: "year_tokens (Some c) cs =
     map (\<lambda>i. take 4 (drop i cs))
       (filter (\<lambda>i. year_here (if i = 0 then Some c else Some (cs ! (i - 1))) (drop i cs))
          [0..<length cs])"
    by (rule Cons.IH)
  have p: "(if i = 0 then Some c else Some (cs ! (i - 1))) = Some ((c # cs) ! i)" for i
    by (cases i) simp_all
  show ?case
    unfolding up by (simp add: ih filter_map comp_def p del: upt_Suc)
qed


lemma digit_val_range: "is_digit c \<Longrightarrow> 0 \<le> digit_val c \<and> digit_val c \<le> 9"
  by (auto simp: is_digit_def digit_val_def digit_chars_def)

lemma digit_val_2_0: "digit_val (CHR ''2'') = 2" "digit_val (CHR ''0'') = 0"
  by (simp_all add: digit_val_def digit_chars_def)

lemma year_here_value:
  "year_here prev s \<Longrightarrow> 2000 \<le> py_int (take 4 s) \<and> py_int (take 4 s) \<le> 2099"
proof -
  assume y: "year_here prev s"
  then obtain c d rest where s: "s = CHR ''2'' # CHR ''0'' # c # d # rest"
    and c: "is_digit c" and d: "is_digit d"
    by (auto simp: year_here_def split: list.splits)
  have "py_int (take 4 s) = 2000 + 10 * digit_val c + digit_val d"
    by (simp add: s py_int_def digit_val_2_0)
  then show ?thesis using digit_val_range[OF c] digit_val_range[OF d] by simp
qed

text \<open>
  The claim as it is written: every position at which the subject goes on with \<open>2\<close>,
  \<open>0\<close> and two digits, whatever stands around them.
\<close>

fun substring_years :: "string \<Rightarrow> int list" where
  "substring_years [] = []"
| "substring_years (a # s) =
     (case s of
        b # c # d # rest \<Rightarrow>
          if a = CHR ''2'' \<and> b = CHR ''0'' \<and> is_digit c \<and> is_digit d
          then [py_int [a, b, c, d]] else []
      | _ \<Rightarrow> [])
     @ substring_years s"

text \<open>
  C7, as the code has it. The pattern is \<open>\b(20\d{2})\b\<close>: the years extracted are
  those of the year tokens, which a word boundary delimits on both sides, taken at
  every position of the query in order (so with their duplicates); each is in
  2000..2099; and the key \<open>years\<close> is present exactly when the query has a year token.
\<close>

theorem years_are_delimited_tokens:
  "extract_years q
     = map (\<lambda>i. py_int (take 4 (drop i q))) (filter (year_at q) [0..<length q])
   \<and> (\<forall>y \<in> set (extract_years q). 2000 \<le> y \<and> y \<le> 2099)
   \<and> years (extract_entities slot st q intent)
       = (if \<exists>i < length q. year_at q i then Some (extract_years q) else None)"
proof -
  have e: "extract_years q
     = map (\<lambda>i. py_int (take 4 (drop i q))) (filter (year_at q) [0..<length q])"
    unfolding extract_years_def re_findall_year_tokens year_tokens_positions[of None q]
    by (simp add: comp_def year_at_def[abs_def])
  have r: "\<forall>y \<in> set (extract_years q). 2000 \<le> y \<and> y \<le> 2099"
    unfolding e using year_here_value by (auto simp: year_at_def)
  have n: "extract_years q \<noteq> [] \<longleftrightarrow> (\<exists>i < length q. year_at q i)"
    unfolding e by (auto simp: filter_empty_conv)
  have k: "years (extract_entities slot st q intent)
       = (if \<exists>i < length q. year_at q i then Some (extract_years q) else None)"
    using n by (simp add: extract_entities_def Let_def)
  show ?thesis using e r k by blast
qed

theorem years_are_delimited_tokens_witness:
  "extract_years ''trend 2021, 2021-2023 vs x2022'' = [2021, 2021, 2023]
   \<and> years (extract_entities (\<lambda>s. 0) None ''trend 2021, 2021-2023 vs x2022'' ''historical'')
       = Some [2021, 2021, 2023]"
proof -
  have a: "map (\<lambda>i. py_int (take 4 (drop i ''trend 2021, 2021-2023 vs x2022'')))
             (filter (year_at ''trend 2021, 2021-2023 vs x2022'')
                [0..<length ''trend 2021, 2021-2023 vs x2022''])
           = [2021, 2021, 2023]"
    by code_simp
  have b: "\<exists>i < length ''trend 2021, 2021-2023 vs x2022''.
             year_at ''trend 2021, 2021-2023 vs x2022'' i"
    by (rule exI[of _ 6]) code_simp
  show ?thesis
    using years_are_delimited_tokens
            [of "''trend 2021, 2021-2023 vs x2022''" "\<lambda>s. 0" None "''historical''"] a b
    by presburger
qed

text \<open>
  The claim without the boundaries fails: \<open>2023\<close> is a substring of the query below
  and matches \<open>20\d\d\<close>, and the code extracts no year from it.
\<close>

theorem years_substring_counterexample:
  "substring_years ''rainfall in year2023'' = [2023]
   \<and> extract_years ''rainfall in year2023'' = []
   \<and> years (extract_entities (\<lambda>s. 0) None ''rainfall in year2023'' ''general'') = None"
  by code_simp

subsection \<open>A sample store\<close>

text \<open>
  An assessment as \<open>init_database.py\<close> derives it from the recharge, the stage of
  extraction and the pre-monsoon level.
\<close>

definition mk_assessment ::
  "int \<Rightarrow> int \<Rightarrow> int \<Rightarrow> string \<Rightarrow> rat \<Rightarrow> rat \<Rightarrow> rat \<Rightarrow> assessment_row" where
  "mk_assessment i b y cat stage recharge pre =
     \<lparr> assessment_id = i, ga_block_id = b, assessment_year = y,
       annual_recharge_mcm = recharge,
       extractable_resources_mcm = recharge * (85 / 100),
       total_extraction_mcm = (stage / 100) * (recharge * (85 / 100)),
       stage_of_extraction = stage, category = cat,
       water_level_pre_monsoon = pre, water_level_post_monsoon = pre - 3 \<rparr>"

definition sample_db :: database where
  "sample_db =
     \<lparr> states_tbl = Some [\<lparr> state_id = 1, state_name = ''Delhi'' \<rparr>,
                          \<lparr> state_id = 2, state_name = ''Tamil Nadu'' \<rparr>],
       districts_tbl = Some [\<lparr> district_id = 1, district_name = ''North Delhi'', d_state_id = 1 \<rparr>,
                             \<lparr> district_id = 2, district_name = ''Chennai'', d_state_id = 2 \<rparr>],
       blocks_tbl = Some [\<lparr> block_id = 1, block_name = ''North Delhi Block-1'', b_district_id = 1 \<rparr>,
                          \<lparr> block_id = 2, block_name = ''Chennai Block-1'', b_district_id = 2 \<rparr>,
                          \<lparr> block_id = 3, block_name = ''Chennai Block-2'', b_district_id = 2 \<rparr>],
       assessment_tbl = Some [mk_assessment 1 1 2023 ''Safe'' (45678 / 1000) 150 (12345 / 1000),
                              mk_assessment 2 1 2024 ''Critical'' (955 / 10) 80 30,
                              mk_assessment 3 2 2023 ''Safe'' 30 120 8,
                              mk_assessment 4 2 2024 ''Safe'' (52335 / 1000) 110 9,
                              mk_assessment 5 3 2024 ''Safe'' (225 / 10) 180 6] \<rparr>"

definition no_entities :: entities where
  "no_entities = \<lparr> locations = None, years = None, categories = None \<rparr>"

subsection \<open>Dispatch\<close>









subsection \<open>Safe areas\<close>

lemma round_half_even_bounds:
  "\<lfloor>y\<rfloor> \<le> round_half_even y \<and> round_half_even y \<le> \<lfloor>y\<rfloor> + 1"
  by (simp add: round_half_even_def Let_def)

lemma round_half_even_mono:
  assumes "x \<le> y"
  shows "round_half_even x \<le> round_half_even y"
proof (cases "\<lfloor>x\<rfloor> = \<lfloor>y\<rfloor>")
  case True
  then have "x - of_int \<lfloor>x\<rfloor> \<le> y - of_int \<lfloor>y\<rfloor>" using assms by simp
  then show ?thesis using True
    by (auto simp: round_half_even_def Let_def)
next
  case False
  have "\<lfloor>x\<rfloor> \<le> \<lfloor>y\<rfloor>" using assms by (rule floor_mono)
  then have "\<lfloor>x\<rfloor> + 1 \<le> \<lfloor>y\<rfloor>" using False by simp
  then show ?thesis
    using round_half_even_bounds[of x] round_half_even_bounds[of y] by linarith
qed

lemma round2_mono: "x \<le> y \<Longrightarrow> round2 x \<le> round2 y"
  by (simp add: round2_def round_half_even_mono divide_right_mono)

lemma round2_hundredths: "\<exists>n :: int. round2 x = of_int n / 100"
  by (auto simp: round2_def)

lemma sorted_map_mono:
  "(\<And>x y. x \<le> y \<Longrightarrow> f x \<le> f y) \<Longrightarrow> sorted (map g xs) \<Longrightarrow> sorted (map (\<lambda>x. f (g x)) xs)"
  by (induction xs) auto


lemma safe_record_percentage:
  "sa_extraction_percentage (safe_record r) = round2 (stage_of_extraction (fst r))"
  by (cases r) (simp add: safe_record_def)

lemma safe_rows_props:
  "length (safe_rows rows) \<le> 15
   \<and> length (safe_rows rows)
       = min 15 (length (filter (\<lambda>r. category (fst r) = ''Safe''
                                    \<and> assessment_year (fst r) = 2024) rows))
   \<and> (\<forall>r \<in> set (safe_rows rows).
          r \<in> set rows \<and> category (fst r) = ''Safe'' \<and> assessment_year (fst r) = 2024)
   \<and> sorted (map (\<lambda>r. stage_of_extraction (fst r)) (safe_rows rows))"
proof -
  let ?safe = "filter (\<lambda>r. category (fst r) = ''Safe'' \<and> assessment_year (fst r) = 2024) rows"
  let ?key = "\<lambda>r :: joined_row. stage_of_extraction (fst r)"
  have s: "safe_rows rows = take 15 (sort_key ?key ?safe)"
    by (simp add: safe_rows_def)
  have m: "\<forall>r \<in> set (safe_rows rows).
          r \<in> set rows \<and> category (fst r) = ''Safe'' \<and> assessment_year (fst r) = 2024"
  proof
    fix r assume "r \<in> set (safe_rows rows)"
    then have "r \<in> set (sort_key ?key ?safe)" unfolding s by (rule in_set_takeD)
    then show "r \<in> set rows \<and> category (fst r) = ''Safe'' \<and> assessment_year (fst r) = 2024"
      by simp
  qed
  have "sorted (map ?key (sort_key ?key ?safe))" by (rule sorted_sort_key)
  then have "sorted (take 15 (map ?key (sort_key ?key ?safe)))" by (rule sorted_wrt_take)
  then have o: "sorted (map ?key (safe_rows rows))" unfolding s by (simp add: take_map)
  have l: "length (safe_rows rows) = min 15 (length ?safe)"
    unfolding s by (simp add: min.commute)
  show ?thesis using m o l by simp
qed

text \<open>
  C5. Whatever the entities, \<open>safe_areas\<close> returns at most 15 records (15, or all when
  there are fewer); each is made from a joined row of category \<open>Safe\<close> and year 2024;
  and they stand in ascending order of the stage of extraction, as rows and in their
  rounded \<open>extraction_percentage\<close>.
\<close>

theorem safe_areas_top_15_ascending:
  assumes "joined db = Inr rows"
  shows "\<exists>rs. get_response_data (Some db) ''safe_areas'' e = Inr (Safe_areas (map safe_record rs))
           \<and> length rs \<le> 15
           \<and> length rs = min 15 (length (filter (\<lambda>r. category (fst r) = ''Safe''
                                                   \<and> assessment_year (fst r) = 2024) rows))
           \<and> (\<forall>r \<in> set rs. r \<in> set rows \<and> category (fst r) = ''Safe''
                              \<and> assessment_year (fst r) = 2024)
           \<and> sorted (map (\<lambda>r. stage_of_extraction (fst r)) rs)
           \<and> sorted (map sa_extraction_percentage (map safe_record rs))"
proof -
  have d: "get_response_data (Some db) ''safe_areas'' e
             = Inr (Safe_areas (map safe_record (safe_rows rows)))"
    by (simp add: get_response_data_def get_safe_areas_def assms)
  have "sorted (map (\<lambda>r. round2 (stage_of_extraction (fst r))) (safe_rows rows))"
    using safe_rows_props[of rows] sorted_map_mono[of round2, OF round2_mono] by blast
  then have p: "sorted (map sa_extraction_percentage (map safe_record (safe_rows rows)))"
    by (simp add: comp_def safe_record_percentage)
  show ?thesis
    using d p safe_rows_props[of rows] by blast
qed

theorem safe_areas_top_15_ascending_witness:
  "(\<exists>rows. joined sample_db = Inr rows)
   \<and> get_response_data (Some sample_db) ''safe_areas'' no_entities
       = Inr (Safe_areas
                [\<lparr> sa_block = ''Chennai Block-2'', sa_district = ''Chennai'',
                    sa_state = ''Tamil Nadu'', sa_extraction_percentage = 225 / 10,
                    sa_annual_recharge = 180 \<rparr>,
                 \<lparr> sa_block = ''Chennai Block-1'', sa_district = ''Chennai'',
                    sa_state = ''Tamil Nadu'', sa_extraction_percentage = 5234 / 100,
                    sa_annual_recharge = 110 \<rparr>])"
proof -
  obtain rows where j: "joined sample_db = Inr rows"
    by (auto simp: joined_def sample_db_def)
  have v: "get_response_data (Some sample_db) ''safe_areas'' no_entities
       = Inr (Safe_areas
                [\<lparr> sa_block = ''Chennai Block-2'', sa_district = ''Chennai'',
                    sa_state = ''Tamil Nadu'', sa_extraction_percentage = 225 / 10,
                    sa_annual_recharge = 180 \<rparr>,
                 \<lparr> sa_block = ''Chennai Block-1'', sa_district = ''Chennai'',
                    sa_state = ''Tamil Nadu'', sa_extraction_percentage = 5234 / 100,
                    sa_annual_recharge = 110 \<rparr>])"
    by code_simp
  show ?thesis
    using safe_areas_top_15_ascending [OF j, of no_entities] j v by blast
qed

subsection \<open>Historical data\<close>

text \<open>
  C10. The result of \<open>historical\<close> depends on the entities through their locations
  only: two entity maps with the same locations, whatever their years, get the same
  query and the same result, from the strategy and through the dispatch.
\<close>

theorem historical_ignores_years:
  assumes "locations e1 = locations e2"
  shows "get_historical_data db e1 = get_historical_data db e2
         \<and> get_response_data st ''historical'' e1 = get_response_data st ''historical'' e2"
proof -
  have h: "get_historical_data db' e1 = get_historical_data db' e2" for db'
    using assms
    by (simp add: get_historical_data_def Let_def scoped_location_def first_location_def)
  show ?thesis
    using h by (simp add: get_response_data_def split: option.splits)
qed

theorem historical_ignores_years_witness:
  "get_response_data (Some sample_db) ''historical''
     \<lparr> locations = Some [''Chennai''], years = Some [2023], categories = None \<rparr>
   = get_response_data (Some sample_db) ''historical''
     \<lparr> locations = Some [''Chennai''], years = None, categories = None \<rparr>
   \<and> get_response_data (Some sample_db) ''historical''
     \<lparr> locations = Some [''Chennai''], years = Some [2023], categories = None \<rparr>
   = Inr (Historical_trends [(2023, 30, 8, 1), (2024, 1871 / 50, 15 / 2, 2)] ''Chennai'')"
proof -
  have v: "get_response_data (Some sample_db) ''historical''
             \<lparr> locations = Some [''Chennai''], years = None, categories = None \<rparr>
           = Inr (Historical_trends [(2023, 30, 8, 1), (2024, 1871 / 50, 15 / 2, 2)] ''Chennai'')"
    by code_simp
  show ?thesis
    using historical_ignores_years
            [of "\<lparr> locations = Some [''Chennai''], years = Some [2023], categories = None \<rparr>"
                "\<lparr> locations = Some [''Chennai''], years = None, categories = None \<rparr>"
                sample_db "Some sample_db"] v
    by simp
qed

subsection \<open>Matching a location\<close>

lemma lower_char_idem: "lower_char (lower_char c) = lower_char c"
  by (simp add: lower_char_def upper_letters_def lower_letters_def)

lemma lower_char_percent: "lower_char c = CHR ''%'' \<longleftrightarrow> c = CHR ''%''"
  by (simp add: lower_char_def upper_letters_def lower_letters_def)

lemma lower_char_underscore: "lower_char c = CHR ''_'' \<longleftrightarrow> c = CHR ''_''"
  by (simp add: lower_char_def upper_letters_def lower_letters_def)

lemma sql_like_percent: "sql_like ''%'' x"
  by (induction x) simp_all

lemma sql_like_prefix:
  "CHR ''%'' \<notin> set p \<Longrightarrow> CHR ''_'' \<notin> set p \<Longrightarrow>
   sql_like (p @ ''%'') x
     = (length p \<le> length x \<and> map lower_char p = map lower_char (take (length p) x))"
proof (induction p arbitrary: x)
  case Nil
  show ?case by (simp add: sql_like_percent)
next
  case (Cons a p)
  show ?case
  proof (cases x)
    case Nil
    then show ?thesis using Cons.prems by auto
  next
    case (Cons c cs)
    then show ?thesis using Cons.prems Cons.IH[of cs] by auto
  qed
qed

lemma sql_like_percent_head:
  "sql_like (CHR ''%'' # q) x = (\<exists>n \<le> length x. sql_like q (drop n x))"
proof (induction x)
  case Nil
  show ?case by simp
next
  case (Cons c cs)
  have "(\<exists>n \<le> length (c # cs). sql_like q (drop n (c # cs)))
          = (sql_like q (c # cs) \<or> (\<exists>n \<le> length cs. sql_like q (drop n cs)))"
  proof
    assume "\<exists>n \<le> length (c # cs). sql_like q (drop n (c # cs))"
    then obtain n where n: "n \<le> length (c # cs)" "sql_like q (drop n (c # cs))" by blast
    show "sql_like q (c # cs) \<or> (\<exists>n \<le> length cs. sql_like q (drop n cs))"
    proof (cases n)
      case 0
      then show ?thesis using n by simp
    next
      case (Suc m)
      then show ?thesis using n by auto
    qed
  next
    assume "sql_like q (c # cs) \<or> (\<exists>n \<le> length cs. sql_like q (drop n cs))"
    then show "\<exists>n \<le> length (c # cs). sql_like q (drop n (c # cs))"
    proof
      assume "sql_like q (c # cs)"
      then show ?thesis by (intro exI[of _ 0]) simp
    next
      assume "\<exists>n \<le> length cs. sql_like q (drop n cs)"
      then obtain n where "n \<le> length cs" "sql_like q (drop n cs)" by blast
      then show ?thesis by (intro exI[of _ "Suc n"]) simp
    qed
  qed
  then show ?case using Cons.IH by simp
qed

lemma sublist_drop_prefix: "sublist p x = (\<exists>n \<le> length x. prefix p (drop n x))"
proof
  assume "sublist p x"
  then obtain ps ss where "x = ps @ p @ ss" by (auto simp: sublist_def)
  then show "\<exists>n \<le> length x. prefix p (drop n x)"
    by (intro exI[of _ "length ps"]) simp
next
  assume "\<exists>n \<le> length x. prefix p (drop n x)"
  then obtain n zs where "drop n x = p @ zs" by (auto simp: prefix_def)
  then have "x = take n x @ p @ zs" by (metis append_take_drop_id)
  then show "sublist p x" unfolding sublist_def by blast
qed

lemma prefix_take: "prefix p y = (length p \<le> length y \<and> p = take (length p) y)"
proof
  assume "prefix p y"
  then obtain zs where "y = p @ zs" by (auto simp: prefix_def)
  then show "length p \<le> length y \<and> p = take (length p) y" by simp
next
  assume "length p \<le> length y \<and> p = take (length p) y"
  then have "y = p @ drop (length p) y" by (metis append_take_drop_id)
  then show "prefix p y" unfolding prefix_def by blast
qed

text \<open>
  For a location without \<open>%\<close> and \<open>_\<close>, the LIKE test of the queries is the
  case-insensitive substring test.
\<close>

lemma like_is_substring:
  assumes "CHR ''%'' \<notin> set location" and "CHR ''_'' \<notin> set location"
  shows "sql_like (like_pattern location) (sql_lower name)
           = sublist (py_lower location) (py_lower name)"
proof -
  let ?p = "py_lower location"
  let ?x = "py_lower name"
  have w: "CHR ''%'' \<notin> set ?p" "CHR ''_'' \<notin> set ?p"
  proof -
    show "CHR ''%'' \<notin> set ?p"
    proof
      assume "CHR ''%'' \<in> set ?p"
      then obtain c where "c \<in> set location" "lower_char c = CHR ''%''"
        by (auto simp: py_lower_def)
      then show False using assms(1) by (simp add: lower_char_percent)
    qed
    show "CHR ''_'' \<notin> set ?p"
    proof
      assume "CHR ''_'' \<in> set ?p"
      then obtain c where "c \<in> set location" "lower_char c = CHR ''_''"
        by (auto simp: py_lower_def)
      then show False using assms(2) by (simp add: lower_char_underscore)
    qed
  qed
  have lp: "map lower_char ?p = ?p" by (simp add: py_lower_def lower_char_idem)
  have lx: "map lower_char (take k (drop n ?x)) = take k (drop n ?x)" for k n
    by (simp add: py_lower_def take_map drop_map lower_char_idem)
  have "sql_like (like_pattern location) (sql_lower name)
          = (\<exists>n \<le> length ?x. sql_like (?p @ ''%'') (drop n ?x))"
    by (simp add: like_pattern_def sql_lower_def py_lower_def sql_like_percent_head)
  also have "\<dots> = (\<exists>n \<le> length ?x. prefix ?p (drop n ?x))"
  proof -
    have "sql_like (?p @ ''%'') (drop n ?x) = prefix ?p (drop n ?x)" for n
      unfolding sql_like_prefix[OF w] lp lx prefix_take[of ?p "drop n ?x"] ..
    then show ?thesis by simp
  qed
  finally show ?thesis by (simp add: sublist_drop_prefix)
qed

subsection \<open>Groundwater status\<close>

lemma round_half_even_close: "\<bar>of_int (round_half_even y) - y\<bar> \<le> 1 / 2"
proof -
  have a: "of_int \<lfloor>y\<rfloor> \<le> y" "y < of_int \<lfloor>y\<rfloor> + 1" by linarith+
  show ?thesis
  proof (cases "y - of_int \<lfloor>y\<rfloor> < 1 / 2")
    case True
    then have e: "round_half_even y = \<lfloor>y\<rfloor>"
      by (simp add: round_half_even_def Let_def)
    show ?thesis unfolding e using a True by linarith
  next
    case False
    show ?thesis
    proof (cases "1 / 2 < y - of_int \<lfloor>y\<rfloor>")
      case True
      then have e: "round_half_even y = \<lfloor>y\<rfloor> + 1"
        using False by (simp add: round_half_even_def Let_def)
      have "\<bar>(of_int \<lfloor>y\<rfloor> + 1) - y\<bar> \<le> 1 / 2" using a True by linarith
      then show ?thesis unfolding e by simp
    next
      case F2: False
      have h: "y - of_int \<lfloor>y\<rfloor> = 1 / 2" using False F2 by linarith
      have "round_half_even y = \<lfloor>y\<rfloor> \<or> round_half_even y = \<lfloor>y\<rfloor> + 1"
        using False F2 by (simp add: round_half_even_def Let_def)
      then show ?thesis
      proof
        assume e: "round_half_even y = \<lfloor>y\<rfloor>"
        show ?thesis unfolding e using h by linarith
      next
        assume e: "round_half_even y = \<lfloor>y\<rfloor> + 1"
        have "\<bar>(of_int \<lfloor>y\<rfloor> + 1) - y\<bar> \<le> 1 / 2" using h by linarith
        then show ?thesis unfolding e by simp
      qed
    qed
  qed
qed

lemma round2_close_aux:
  fixes n x :: rat
  assumes "\<bar>n - x * 100\<bar> \<le> 1 / 2"
  shows "\<bar>n / 100 - x\<bar> \<le> 1 / 200"
  using assms by linarith

lemma round2_close: "\<bar>round2 x - x\<bar> \<le> 1 / 200"
  unfolding round2_def by (rule round2_close_aux) (rule round_half_even_close)

text \<open>A number that \<open>round(x, 2)\<close> can return for \<open>x\<close>.\<close>

definition two_decimals_of :: "rat \<Rightarrow> rat \<Rightarrow> bool" where
  "two_decimals_of x v = ((\<exists>n :: int. v = of_int n / 100) \<and> \<bar>v - x\<bar> \<le> 1 / 200)"

lemma round2_two_decimals: "two_decimals_of x (round2 x)"
  using round2_hundredths[of x] round2_close[of x] by (simp add: two_decimals_of_def)

lemma status_rows_props:
  "length (status_rows location year rows) \<le> 10
   \<and> (\<forall>r \<in> set (status_rows location year rows).
          r \<in> set rows \<and> assessment_year (fst r) = year \<and> location_matches location r)"
proof -
  have m: "\<forall>r \<in> set (status_rows location year rows).
          r \<in> set rows \<and> assessment_year (fst r) = year \<and> location_matches location r"
  proof
    fix r assume "r \<in> set (status_rows location year rows)"
    then have "r \<in> set (filter (\<lambda>r. location_matches location r
                                      \<and> assessment_year (fst r) = year) rows)"
      unfolding status_rows_def by (rule in_set_takeD)
    then show "r \<in> set rows \<and> assessment_year (fst r) = year \<and> location_matches location r"
      by simp
  qed
  have l: "length (status_rows location year rows) \<le> 10"
    by (simp add: status_rows_def)
  show ?thesis using l m by (rule conjI)
qed

lemma location_matches_substring:
  assumes "CHR ''%'' \<notin> set location" and "CHR ''_'' \<notin> set location"
  shows "location_matches location (ga, b, d, s)
           = (sublist (py_lower location) (py_lower (state_name s))
              \<or> sublist (py_lower location) (py_lower (district_name d)))"
  by (simp add: location_matches_def like_is_substring[OF assms])

lemma status_record_fields:
  "sb_stage_of_extraction (status_record r) = round2 (stage_of_extraction (fst r))
   \<and> sb_water_level (status_record r) = round2 (water_level_pre_monsoon (fst r))
   \<and> sb_annual_recharge (status_record r) = round2 (annual_recharge_mcm (fst r))"
  by (cases r) (simp add: status_record_def)

text \<open>
  C4, as the code has it. \<open>groundwater_status\<close> takes the first location, or
  \<open>Delhi\<close>, and the first year, or 2024. It returns at most 10 block records, each
  made from a joined row of that year whose state name or district name, lower-cased,
  is LIKE \<open>%location%\<close> with the location lower-cased; for a location without \<open>%\<close>
  and \<open>_\<close> that is: contains the location, without regard to case. The three numeric
  fields are the columns rounded to 2 decimal places.
\<close>

theorem groundwater_status_first_location_and_year:
  assumes "joined db = Inr rows"
    and "location = (case locations e of Some (l # ls) \<Rightarrow> l | _ \<Rightarrow> ''Delhi'')"
    and "year = (case years e of Some (y # ys) \<Rightarrow> y | _ \<Rightarrow> 2024)"
  shows "\<exists>rs. get_response_data (Some db) ''groundwater_status'' e
                = Inr (Groundwater_status location year (map status_record rs))
           \<and> length rs \<le> 10
           \<and> (\<forall>r \<in> set rs.
                  r \<in> set rows \<and> assessment_year (fst r) = year
                  \<and> location_matches location r
                  \<and> two_decimals_of (stage_of_extraction (fst r))
                       (sb_stage_of_extraction (status_record r))
                  \<and> two_decimals_of (water_level_pre_monsoon (fst r))
                       (sb_water_level (status_record r))
                  \<and> two_decimals_of (annual_recharge_mcm (fst r))
                       (sb_annual_recharge (status_record r)))
           \<and> (CHR ''%'' \<notin> set location \<and> CHR ''_'' \<notin> set location \<longrightarrow>
                (\<forall>(ga, b, d, s) \<in> set rs.
                   sublist (py_lower location) (py_lower (state_name s))
                   \<or> sublist (py_lower location) (py_lower (district_name d))))"
proof -
  let ?rs = "status_rows location year rows"
  have l: "(case first_location e of Some l \<Rightarrow> l | None \<Rightarrow> ''Delhi'') = location"
    by (simp add: assms(2) first_location_def split: option.splits list.splits)
  have y: "(case first_year e of Some y \<Rightarrow> y | None \<Rightarrow> 2024) = year"
    by (simp add: assms(3) first_year_def split: option.splits list.splits)
  have d: "get_response_data (Some db) ''groundwater_status'' e
             = Inr (Groundwater_status location year (map status_record ?rs))"
    by (simp add: get_response_data_def get_groundwater_status_def Let_def l y assms(1))
  have p: "\<forall>r \<in> set ?rs.
             r \<in> set rows \<and> assessment_year (fst r) = year \<and> location_matches location r
             \<and> two_decimals_of (stage_of_extraction (fst r))
                  (sb_stage_of_extraction (status_record r))
             \<and> two_decimals_of (water_level_pre_monsoon (fst r))
                  (sb_water_level (status_record r))
             \<and> two_decimals_of (annual_recharge_mcm (fst r))
                  (sb_annual_recharge (status_record r))"
  proof
    fix r assume r: "r \<in> set ?rs"
    have a: "r \<in> set rows \<and> assessment_year (fst r) = year \<and> location_matches location r"
      using status_rows_props[of location year rows] r by blast
    show "r \<in> set rows \<and> assessment_year (fst r) = year \<and> location_matches location r
             \<and> two_decimals_of (stage_of_extraction (fst r))
                  (sb_stage_of_extraction (status_record r))
             \<and> two_decimals_of (water_level_pre_monsoon (fst r))
                  (sb_water_level (status_record r))
             \<and> two_decimals_of (annual_recharge_mcm (fst r))
                  (sb_annual_recharge (status_record r))"
      using a by (simp add: status_record_fields[of r] round2_two_decimals)
  qed
  have s: "CHR ''%'' \<notin> set location \<and> CHR ''_'' \<notin> set location \<longrightarrow>
             (\<forall>(ga, b, d, s) \<in> set ?rs.
                sublist (py_lower location) (py_lower (state_name s))
                \<or> sublist (py_lower location) (py_lower (district_name d)))"
  proof (intro impI ballI)
    fix r assume w: "CHR ''%'' \<notin> set location \<and> CHR ''_'' \<notin> set location"
      and r: "r \<in> set ?rs"
    obtain ga b d s where t: "r = (ga, b, d, s)" by (cases r) auto
    have "location_matches location (ga, b, d, s)"
      using status_rows_props[of location year rows] r t by blast
    then have "sublist (py_lower location) (py_lower (state_name s))
                \<or> sublist (py_lower location) (py_lower (district_name d))"
      using location_matches_substring[of location ga b d s] w by blast
    then show "case r of (ga, b, d, s) \<Rightarrow>
                sublist (py_lower location) (py_lower (state_name s))
                \<or> sublist (py_lower location) (py_lower (district_name d))"
      by (simp add: t)
  qed
  show ?thesis
    using d p s status_rows_props[of location year rows] by blast
qed

theorem groundwater_status_first_location_and_year_witness:
  "(\<exists>rows. joined sample_db = Inr rows)
   \<and> get_response_data (Some sample_db) ''groundwater_status'' no_entities
       = Inr (Groundwater_status ''Delhi'' 2024
                [\<lparr> sb_block_name = ''North Delhi Block-1'', sb_category = ''Critical'',
                    sb_stage_of_extraction = 955 / 10, sb_water_level = 30,
                    sb_annual_recharge = 80, sb_district = ''North Delhi'',
                    sb_state = ''Delhi'' \<rparr>])"
proof -
  obtain rows where j: "joined sample_db = Inr rows"
    by (auto simp: joined_def sample_db_def)
  have l: "''Delhi'' = (case locations no_entities of Some (l # ls) \<Rightarrow> l | _ \<Rightarrow> ''Delhi'')"
    by (simp add: no_entities_def)
  have y: "2024 = (case years no_entities of Some (y # ys) \<Rightarrow> y | _ \<Rightarrow> 2024)"
    by (simp add: no_entities_def)
  have v: "get_response_data (Some sample_db) ''groundwater_status'' no_entities
       = Inr (Groundwater_status ''Delhi'' 2024
                [\<lparr> sb_block_name = ''North Delhi Block-1'', sb_category = ''Critical'',
                    sb_stage_of_extraction = 955 / 10, sb_water_level = 30,
                    sb_annual_recharge = 80, sb_district = ''North Delhi'',
                    sb_state = ''Delhi'' \<rparr>])"
    by code_simp
  show ?thesis
    using groundwater_status_first_location_and_year [OF j l y] j v by blast
qed

text \<open>
  A store in which a block name is written with an underscore where its district has
  a space.
\<close>

definition underscore_db :: database where
  "underscore_db =
     \<lparr> states_tbl = Some [\<lparr> state_id = 1, state_name = ''Goa'' \<rparr>],
       districts_tbl = Some [\<lparr> district_id = 1, district_name = ''South Goa'', d_state_id = 1 \<rparr>],
       blocks_tbl = Some [\<lparr> block_id = 1, block_name = ''South_Goa Block-1'', b_district_id = 1 \<rparr>],
       assessment_tbl = Some [mk_assessment 1 1 2024 ''Safe'' 40 100 9] \<rparr>"

text \<open>
  The claim with the plain substring test fails: in the location below \<open>_\<close> is a
  wildcard of LIKE, so the block of the district \<open>South Goa\<close> is returned, though
  neither its state name nor its district name contains \<open>south_goa\<close>.
\<close>

theorem groundwater_status_substring_counterexample:
  "get_response_data (Some underscore_db) ''groundwater_status''
     \<lparr> locations = Some [''South_Goa''], years = Some [2024], categories = None \<rparr>
     = Inr (Groundwater_status ''South_Goa'' 2024
              [\<lparr> sb_block_name = ''South_Goa Block-1'', sb_category = ''Safe'',
                  sb_stage_of_extraction = 40, sb_water_level = 9,
                  sb_annual_recharge = 100, sb_district = ''South Goa'',
                  sb_state = ''Goa'' \<rparr>])
   \<and> \<not> sublist (py_lower ''South_Goa'') (py_lower ''Goa'')
   \<and> \<not> sublist (py_lower ''South_Goa'') (py_lower ''South Goa'')"
  by code_simp

subsection \<open>Location-scoped queries\<close>

lemma scoped_rows_props:
  "\<forall>r \<in> set (scoped_rows location rows).
      r \<in> set rows \<and> assessment_year (fst r) = 2024 \<and> location_matches location r"
proof
  fix r assume "r \<in> set (scoped_rows location rows)"
  then have "r \<in> set (filter (\<lambda>r. location_matches location r
                                    \<and> assessment_year (fst r) = 2024) rows)"
    unfolding scoped_rows_def by (rule in_set_takeD)
  then show "r \<in> set rows \<and> assessment_year (fst r) = 2024 \<and> location_matches location r"
    by simp
qed

lemma scoped_rows_none:
  "\<forall>r \<in> set rows. \<not> location_matches location r \<Longrightarrow> scoped_rows location rows = []"
  by (simp add: scoped_rows_def filter_empty_conv)

lemma status_rows_none:
  "\<forall>r \<in> set rows. \<not> location_matches location r \<Longrightarrow> status_rows location year rows = []"
  by (simp add: status_rows_def filter_empty_conv)

lemma filter_matches_none:
  "\<forall>r \<in> set rows. \<not> location_matches location r \<Longrightarrow> filter (location_matches location) rows = []"
  by (simp add: filter_empty_conv)

lemma location_matches_block_free:
  "location_matches l (ga, b, d, s) = location_matches l (ga', b', d, s)"
  by (simp add: location_matches_def)

text \<open>
  C6, as the code has it. For a location that is not the empty string, each of the
  five scoped queries keeps the joined rows whose state name or district name,
  lower-cased, is LIKE \<open>%location%\<close>: the test reads nothing of the block or of the
  assessment, and for a location without \<open>%\<close> and \<open>_\<close> it is the case-insensitive
  substring test. So when no joined row passes it, whatever the block names, the
  five results are empty.
\<close>

theorem scoped_queries_filter_state_and_district:
  assumes "locations e = Some (l # ls)" and "l \<noteq> []" and "joined db = Inr rows"
  shows "location_matches l (ga, b, d, s) = location_matches l (ga', b', d, s)
    \<and> (CHR ''%'' \<notin> set l \<and> CHR ''_'' \<notin> set l \<longrightarrow>
         location_matches l (ga, b, d, s)
           = (sublist (py_lower l) (py_lower (state_name s))
              \<or> sublist (py_lower l) (py_lower (district_name d))))
    \<and> (\<exists>year rs1 rs2 rs3 rs4 rs5.
          get_response_data (Some db) ''groundwater_status'' e
            = Inr (Groundwater_status l year (map status_record rs1))
          \<and> get_response_data (Some db) ''water_level'' e
            = Inr (Water_levels l (map water_level_record rs2))
          \<and> get_response_data (Some db) ''recharge'' e
            = Inr (Recharge_data l (map recharge_record rs3))
          \<and> get_response_data (Some db) ''extraction'' e
            = Inr (Extraction_data l (map extraction_record rs4))
          \<and> get_response_data (Some db) ''historical'' e
            = (case trend_records (year_groups fst joined_block_id rs5) of
                 Inl err \<Rightarrow> Inl err
               | Inr ts \<Rightarrow> Inr (Historical_trends ts l))
          \<and> (\<forall>r \<in> set rs1 \<union> set rs2 \<union> set rs3 \<union> set rs4 \<union> set rs5.
                 r \<in> set rows \<and> location_matches l r))
    \<and> ((\<forall>r \<in> set rows. \<not> location_matches l r) \<longrightarrow>
         (\<exists>year. get_response_data (Some db) ''groundwater_status'' e
                    = Inr (Groundwater_status l year []))
         \<and> get_response_data (Some db) ''water_level'' e = Inr (Water_levels l [])
         \<and> get_response_data (Some db) ''recharge'' e = Inr (Recharge_data l [])
         \<and> get_response_data (Some db) ''extraction'' e = Inr (Extraction_data l [])
         \<and> get_response_data (Some db) ''historical'' e = Inr (Historical_trends [] l))"
proof -
  let ?year = "case first_year e of Some y \<Rightarrow> y | None \<Rightarrow> 2024"
  have fl: "first_location e = Some l" by (simp add: first_location_def assms(1))
  have sl: "scoped_location e = Some l" by (simp add: scoped_location_def fl assms(2))
  have gs: "get_response_data (Some db) ''groundwater_status'' e
              = Inr (Groundwater_status l ?year (map status_record (status_rows l ?year rows)))"
    by (simp add: get_response_data_def get_groundwater_status_def Let_def fl assms(3))
  have wl: "get_response_data (Some db) ''water_level'' e
              = Inr (Water_levels l (map water_level_record (scoped_rows l rows)))"
    by (simp add: get_response_data_def get_water_levels_def sl assms(3))
  have rc: "get_response_data (Some db) ''recharge'' e
              = Inr (Recharge_data l (map recharge_record (scoped_rows l rows)))"
    by (simp add: get_response_data_def get_recharge_data_def sl assms(3))
  have ex: "get_response_data (Some db) ''extraction'' e
              = Inr (Extraction_data l (map extraction_record (scoped_rows l rows)))"
    by (simp add: get_response_data_def get_extraction_data_def sl assms(3))
  have hi: "get_response_data (Some db) ''historical'' e
              = (case trend_records (year_groups fst joined_block_id
                                       (filter (location_matches l) rows)) of
                   Inl err \<Rightarrow> Inl err
                 | Inr ts \<Rightarrow> Inr (Historical_trends ts l))"
    by (simp add: get_response_data_def get_historical_data_def Let_def sl assms(3))
  have m: "\<forall>r \<in> set (status_rows l ?year rows) \<union> set (scoped_rows l rows)
                 \<union> set (scoped_rows l rows) \<union> set (scoped_rows l rows)
                 \<union> set (filter (location_matches l) rows).
             r \<in> set rows \<and> location_matches l r"
    using status_rows_props[of l ?year rows] scoped_rows_props[of l rows] by auto
  have p3: "\<exists>year rs1 rs2 rs3 rs4 rs5.
          get_response_data (Some db) ''groundwater_status'' e
            = Inr (Groundwater_status l year (map status_record rs1))
          \<and> get_response_data (Some db) ''water_level'' e
            = Inr (Water_levels l (map water_level_record rs2))
          \<and> get_response_data (Some db) ''recharge'' e
            = Inr (Recharge_data l (map recharge_record rs3))
          \<and> get_response_data (Some db) ''extraction'' e
            = Inr (Extraction_data l (map extraction_record rs4))
          \<and> get_response_data (Some db) ''historical'' e
            = (case trend_records (year_groups fst joined_block_id rs5) of
                 Inl err \<Rightarrow> Inl err
               | Inr ts \<Rightarrow> Inr (Historical_trends ts l))
          \<and> (\<forall>r \<in> set rs1 \<union> set rs2 \<union> set rs3 \<union> set rs4 \<union> set rs5.
                 r \<in> set rows \<and> location_matches l r)"
    using gs wl rc ex hi m by blast
  have p4: "(\<forall>r \<in> set rows. \<not> location_matches l r) \<longrightarrow>
         (\<exists>year. get_response_data (Some db) ''groundwater_status'' e
                    = Inr (Groundwater_status l year []))
         \<and> get_response_data (Some db) ''water_level'' e = Inr (Water_levels l [])
         \<and> get_response_data (Some db) ''recharge'' e = Inr (Recharge_data l [])
         \<and> get_response_data (Some db) ''extraction'' e = Inr (Extraction_data l [])
         \<and> get_response_data (Some db) ''historical'' e = Inr (Historical_trends [] l)"
  proof
    assume n: "\<forall>r \<in> set rows. \<not> location_matches l r"
    have h0: "get_response_data (Some db) ''historical'' e = Inr (Historical_trends [] l)"
      unfolding hi filter_matches_none[OF n] by (simp add: year_groups_def)
    show "(\<exists>year. get_response_data (Some db) ''groundwater_status'' e
                    = Inr (Groundwater_status l year []))
         \<and> get_response_data (Some db) ''water_level'' e = Inr (Water_levels l [])
         \<and> get_response_data (Some db) ''recharge'' e = Inr (Recharge_data l [])
         \<and> get_response_data (Some db) ''extraction'' e = Inr (Extraction_data l [])
         \<and> get_response_data (Some db) ''historical'' e = Inr (Historical_trends [] l)"
      using h0 by (simp add: gs wl rc ex scoped_rows_none[OF n] status_rows_none[OF n])
  qed
  have p1: "location_matches l (ga, b, d, s) = location_matches l (ga', b', d, s)"
    by (rule location_matches_block_free)
  have p2: "CHR ''%'' \<notin> set l \<and> CHR ''_'' \<notin> set l \<longrightarrow>
         location_matches l (ga, b, d, s)
           = (sublist (py_lower l) (py_lower (state_name s))
              \<or> sublist (py_lower l) (py_lower (district_name d)))"
    using location_matches_substring[of l ga b d s] by blast
  show ?thesis using p1 p2 p3 p4 by (intro conjI)
qed

text \<open>
  In the sample store \<open>Chennai Block-1\<close> is the name of a block, and no state or
  district name contains it.
\<close>

theorem scoped_queries_filter_state_and_district_witness:
  "(\<exists>rows. joined sample_db = Inr rows
           \<and> list_all (\<lambda>r. \<not> location_matches ''Chennai Block-1'' r) rows)
   \<and> get_response_data (Some sample_db) ''groundwater_status''
        \<lparr> locations = Some [''Chennai Block-1''], years = None, categories = None \<rparr>
      = Inr (Groundwater_status ''Chennai Block-1'' 2024 [])
   \<and> get_response_data (Some sample_db) ''water_level''
        \<lparr> locations = Some [''Chennai Block-1''], years = None, categories = None \<rparr>
      = Inr (Water_levels ''Chennai Block-1'' [])
   \<and> get_response_data (Some sample_db) ''recharge''
        \<lparr> locations = Some [''Chennai Block-1''], years = None, categories = None \<rparr>
      = Inr (Recharge_data ''Chennai Block-1'' [])
   \<and> get_response_data (Some sample_db) ''extraction''
        \<lparr> locations = Some [''Chennai Block-1''], years = None, categories = None \<rparr>
      = Inr (Extraction_data ''Chennai Block-1'' [])
   \<and> get_response_data (Some sample_db) ''historical''
        \<lparr> locations = Some [''Chennai Block-1''], years = None, categories = None \<rparr>
      = Inr (Historical_trends [] ''Chennai Block-1'')"
proof -
  let ?e = "\<lparr> locations = Some [''Chennai Block-1''], years = None, categories = None \<rparr>"
  have k: "case joined sample_db of
             Inl err \<Rightarrow> False
           | Inr rows \<Rightarrow> list_all (\<lambda>r. \<not> location_matches ''Chennai Block-1'' r) rows"
    by code_simp
  then obtain rows where j: "joined sample_db = Inr rows"
    and n: "list_all (\<lambda>r. \<not> location_matches ''Chennai Block-1'' r) rows"
    by (auto split: sum.splits)
  have n': "\<forall>r \<in> set rows. \<not> location_matches ''Chennai Block-1'' r"
    using n by (simp add: list_all_iff)
  have l: "locations ?e = Some [''Chennai Block-1'']" by simp
  have ne: "''Chennai Block-1'' \<noteq> []" by simp
  have y: "\<And>year. get_response_data (Some sample_db) ''groundwater_status'' ?e
                    = Inr (Groundwater_status ''Chennai Block-1'' year []) \<Longrightarrow> year = 2024"
    by (simp add: get_response_data_def get_groundwater_status_def Let_def first_year_def
          split: sum.splits)
  show ?thesis
    using scoped_queries_filter_state_and_district [OF l ne j] n' j n y by blast
qed

text \<open>
  The claim with the plain substring test fails: the location below is a substring of
  a block name and of no state or district name, and the scoped queries return the
  block of the district \<open>South Goa\<close>, which LIKE matches with \<open>_\<close> as a wildcard.
\<close>

theorem scoped_queries_substring_counterexample:
  "sublist (py_lower ''South_Goa'') (py_lower ''South_Goa Block-1'')
   \<and> \<not> sublist (py_lower ''South_Goa'') (py_lower ''Goa'')
   \<and> \<not> sublist (py_lower ''South_Goa'') (py_lower ''South Goa'')
   \<and> get_response_data (Some underscore_db) ''water_level''
        \<lparr> locations = Some [''South_Goa''], years = None, categories = None \<rparr>
      = Inr (Water_levels ''South_Goa'' [(''South_Goa Block-1'', 9, 6, 2024)])
   \<and> get_response_data (Some underscore_db) ''recharge''
        \<lparr> locations = Some [''South_Goa''], years = None, categories = None \<rparr>
      = Inr (Recharge_data ''South_Goa'' [(''South_Goa Block-1'', 100, 85)])
   \<and> get_response_data (Some underscore_db) ''extraction''
        \<lparr> locations = Some [''South_Goa''], years = None, categories = None \<rparr>
      = Inr (Extraction_data ''South_Goa'' [(''South_Goa Block-1'', 34, 40, ''Safe'')])
   \<and> get_response_data (Some underscore_db) ''historical''
        \<lparr> locations = Some [''South_Goa''], years = None, categories = None \<rparr>
      = Inr (Historical_trends [(2024, 40, 9, 1)] ''South_Goa'')"
  by code_simp

subsection \<open>Determinism\<close>

lemma py_list_set_set: "set (py_list_set slot xs) = set xs"
  by (simp add: py_list_set_def)

lemma py_list_set_distinct: "distinct (py_list_set slot xs)"
  by (simp add: py_list_set_def)

lemma py_list_set_length: "length (py_list_set slot xs) = length (remdups xs)"
  by (simp add: py_list_set_def)

lemma sort_key_short: "length ys \<le> 1 \<Longrightarrow> sort_key f ys = ys"
  by (cases ys) (auto simp: length_Suc_conv)

lemma py_list_set_short: "length (remdups xs) \<le> 1 \<Longrightarrow> py_list_set slot xs = remdups xs"
  by (simp add: py_list_set_def sort_key_short)

lemma classify_intent_fst_slot:
  "fst (classify_intent slot1 st query) = fst (classify_intent slot2 st query)"
  by (simp add: classify_intent_def Let_def split: option.splits)

text \<open>
  C9, as the code has it. The output of \<open>process_query\<close> is a function of the query,
  the store and the iteration order of the interpreter's sets, which one process
  fixes. Whatever that order, the intent, the years, the categories and the set of
  the extracted locations are the same, and the list of locations has no duplicates;
  when at most one location is extracted the whole output is the same.
\<close>

theorem process_query_up_to_location_order:
  "fst (classify_intent slot1 st query) = fst (classify_intent slot2 st query)
   \<and> years (snd (classify_intent slot1 st query)) = years (snd (classify_intent slot2 st query))
   \<and> categories (snd (classify_intent slot1 st query))
       = categories (snd (classify_intent slot2 st query))
   \<and> map_option set (locations (snd (classify_intent slot1 st query)))
       = map_option set (locations (snd (classify_intent slot2 st query)))
   \<and> (case locations (snd (classify_intent slot1 st query)) of
         Some ls \<Rightarrow> distinct ls | None \<Rightarrow> True)
   \<and> ((case locations (snd (classify_intent slot1 st query)) of
          Some ls \<Rightarrow> length ls \<le> 1 | None \<Rightarrow> True)
        \<longrightarrow> process_query slot1 st query = process_query slot2 st query)"
proof -
  let ?q = "py_lower query"
  let ?xs = "snd (locations_try st ?q)"
  have e: "snd (classify_intent slot st query) = extract_entities slot st ?q ''general''" for slot
    by (rule classify_intent_entities)
  have ne: "py_list_set slot ?xs = [] \<longleftrightarrow> ?xs = []" for slot
    using py_list_set_set[of slot ?xs] by (metis set_empty)
  have loc: "locations (extract_entities slot st ?q ''general'')
               = (if ?xs = [] then None else Some (py_list_set slot ?xs))" for slot
    by (simp add: extract_entities_def Let_def extract_locations_def ne)
  have a: "fst (classify_intent slot1 st query) = fst (classify_intent slot2 st query)"
    by (rule classify_intent_fst_slot)
  have b: "years (snd (classify_intent slot1 st query))
             = years (snd (classify_intent slot2 st query))"
    by (simp add: e extract_entities_def Let_def)
  have c: "categories (snd (classify_intent slot1 st query))
             = categories (snd (classify_intent slot2 st query))"
    by (simp add: e extract_entities_def Let_def)
  have d: "map_option set (locations (snd (classify_intent slot1 st query)))
             = map_option set (locations (snd (classify_intent slot2 st query)))"
    by (simp add: e loc py_list_set_set)
  have f: "case locations (snd (classify_intent slot1 st query)) of
             Some ls \<Rightarrow> distinct ls | None \<Rightarrow> True"
    by (simp add: e loc py_list_set_distinct)
  have g: "(case locations (snd (classify_intent slot1 st query)) of
              Some ls \<Rightarrow> length ls \<le> 1 | None \<Rightarrow> True)
           \<longrightarrow> process_query slot1 st query = process_query slot2 st query"
  proof
    assume h: "case locations (snd (classify_intent slot1 st query)) of
                 Some ls \<Rightarrow> length ls \<le> 1 | None \<Rightarrow> True"
    have s: "length (remdups ?xs) \<le> 1"
    proof (cases "?xs = []")
      case True
      then show ?thesis by simp
    next
      case False
      then show ?thesis using h by (simp add: e loc py_list_set_length)
    qed
    have "extract_locations slot1 st ?q = extract_locations slot2 st ?q"
      by (simp add: extract_locations_def py_list_set_short[OF s])
    then have ee: "extract_entities slot1 st ?q i = extract_entities slot2 st ?q i" for i
      by (simp add: extract_entities_def)
    have "classify_intent slot1 st query = classify_intent slot2 st query"
      by (simp add: classify_intent_def Let_def ee split: option.splits)
    then show "process_query slot1 st query = process_query slot2 st query"
      by (simp add: process_query_def)
  qed
  show ?thesis using a b c d f g by (intro conjI)
qed

theorem process_query_up_to_location_order_witness:
  "process_query length (Some sample_db) ''Status of Chennai''
     = process_query (\<lambda>s. 100 - length s) (Some sample_db) ''Status of Chennai''"
proof -
  have h: "case locations (snd (classify_intent length (Some sample_db) ''Status of Chennai'')) of
             Some ls \<Rightarrow> length ls \<le> 1 | None \<Rightarrow> True"
    by code_simp
  show ?thesis
    using process_query_up_to_location_order
            [of length "Some sample_db" "''Status of Chennai''" "\<lambda>s. 100 - length s"] h
    by blast
qed

text \<open>
  The claim fails for the order of the locations and for what is resolved from the
  first of them: on the same query and the same store, a process whose sets iterate
  \<open>Delhi\<close> before \<open>North Delhi\<close> and one whose sets iterate them the other way
  round return different outputs.
\<close>

theorem process_query_order_counterexample:
  "process_query length (Some sample_db) ''Status of North Delhi''
     = Inr \<lparr> r_intent = ''groundwater_status'',
             r_entities = \<lparr> locations = Some [''Delhi'', ''North Delhi''],
                             years = None, categories = None \<rparr>,
             r_data = Groundwater_status ''Delhi'' 2024
                        [\<lparr> sb_block_name = ''North Delhi Block-1'', sb_category = ''Critical'',
                            sb_stage_of_extraction = 955 / 10, sb_water_level = 30,
                            sb_annual_recharge = 80, sb_district = ''North Delhi'',
                            sb_state = ''Delhi'' \<rparr>],
             r_query = ''Status of North Delhi'' \<rparr>
   \<and> process_query (\<lambda>s. 100 - length s) (Some sample_db) ''Status of North Delhi''
     = Inr \<lparr> r_intent = ''groundwater_status'',
             r_entities = \<lparr> locations = Some [''North Delhi'', ''Delhi''],
                             years = None, categories = None \<rparr>,
             r_data = Groundwater_status ''North Delhi'' 2024
                        [\<lparr> sb_block_name = ''North Delhi Block-1'', sb_category = ''Critical'',
                            sb_stage_of_extraction = 955 / 10, sb_water_level = 30,
                            sb_annual_recharge = 80, sb_district = ''North Delhi'',
                            sb_state = ''Delhi'' \<rparr>],
             r_query = ''Status of North Delhi'' \<rparr>
   \<and> process_query length (Some sample_db) ''Status of North Delhi''
     \<noteq> process_query (\<lambda>s. 100 - length s) (Some sample_db) ''Status of North Delhi''"
proof -
  have a: "process_query length (Some sample_db) ''Status of North Delhi''
     = Inr \<lparr> r_intent = ''groundwater_status'',
             r_entities = \<lparr> locations = Some [''Delhi'', ''North Delhi''],
                             years = None, categories = None \<rparr>,
             r_data = Groundwater_status ''Delhi'' 2024
                        [\<lparr> sb_block_name = ''North Delhi Block-1'', sb_category = ''Critical'',
                            sb_stage_of_extraction = 955 / 10, sb_water_level = 30,
                            sb_annual_recharge = 80, sb_district = ''North Delhi'',
                            sb_state = ''Delhi'' \<rparr>],
             r_query = ''Status of North Delhi'' \<rparr>"
    by code_simp
  have b: "process_query (\<lambda>s. 100 - length s) (Some sample_db) ''Status of North Delhi''
     = Inr \<lparr> r_intent = ''groundwater_status'',
             r_entities = \<lparr> locations = Some [''North Delhi'', ''Delhi''],
                             years = None, categories = None \<rparr>,
             r_data = Groundwater_status ''North Delhi'' 2024
                        [\<lparr> sb_block_name = ''North Delhi Block-1'', sb_category = ''Critical'',
                            sb_stage_of_extraction = 955 / 10, sb_water_level = 30,
                            sb_annual_recharge = 80, sb_district = ''North Delhi'',
                            sb_state = ''Delhi'' \<rparr>],
             r_query = ''Status of North Delhi'' \<rparr>"
    by code_simp
  show ?thesis unfolding a b by simp
qed

end
